theory Spec2Isabelle
  imports Complex_Main
begin

section \<open>Project analytics: KPI formulas of \<open>src/analytics.py\<close>\<close>

text \<open>
  The module computes earned-value KPIs with Python floats. A float is an IEEE 754
  binary64 number; the model keeps its exact value as a real number and rounds after
  every operation as the hardware does (to nearest, ties to even, with gradual underflow
  and overflow to infinity). The two zeros are not told apart: they compare equal and the
  module never divides by a zero. Arguments are Python floats, as the type hints of the
  module declare. Logging has no effect on any result and is left out.
\<close>

subsection \<open>Binary64 numbers and their rounding\<close>

datatype double = Fin real | PInf | NInf | NaN

text \<open>Rounding to an integer, a tie going to the even neighbour.\<close>

definition round_half_even :: "real \<Rightarrow> int" where
  "round_half_even x =
     (let f = \<lfloor>x\<rfloor>; d = x - of_int f
      in if d < 1 / 2 then f
         else if 1 / 2 < d then f + 1
         else if even f then f else f + 1)"

text \<open>
  The spacing of the binary64 numbers around \<open>x\<close>: 53 significant bits, and the
  spacing of the subnormal numbers below \<open>2 ^ -1022\<close>.
\<close>

definition ulp :: "real \<Rightarrow> real" where
  "ulp x = 2 powr (of_int (max \<lfloor>log 2 \<bar>x\<bar>\<rfloor> (- 1022)) - 52)"

definition round_to_ulp :: "real \<Rightarrow> real" where
  "round_to_ulp x = of_int (round_half_even (x / ulp x)) * ulp x"

text \<open>The float nearest to a real number: the result of every arithmetic operation.\<close>

definition fl :: "real \<Rightarrow> double" where
  "fl x =
     (let y = round_to_ulp x
      in if 2 ^ 1024 \<le> y then PInf
         else if y \<le> - (2 ^ 1024) then NInf
         else Fin y)"

definition finite_double :: "double \<Rightarrow> bool" where
  "finite_double d = (case d of Fin x \<Rightarrow> \<bar>x\<bar> < 2 ^ 1024 | _ \<Rightarrow> False)"

subsection \<open>Float arithmetic and comparison\<close>

fun fneg :: "double \<Rightarrow> double" where
  "fneg (Fin x) = Fin (- x)"
| "fneg PInf = NInf"
| "fneg NInf = PInf"
| "fneg NaN = NaN"

text \<open>A sum with a zero operand is the other operand, exactly.\<close>

fun fadd :: "double \<Rightarrow> double \<Rightarrow> double" where
  "fadd (Fin x) (Fin y) = (if x = 0 then Fin y else if y = 0 then Fin x else fl (x + y))"
| "fadd NaN b = NaN"
| "fadd a NaN = NaN"
| "fadd PInf NInf = NaN"
| "fadd NInf PInf = NaN"
| "fadd PInf b = PInf"
| "fadd a PInf = PInf"
| "fadd NInf b = NInf"
| "fadd a NInf = NInf"

definition fsub :: "double \<Rightarrow> double \<Rightarrow> double" where
  "fsub a b = fadd a (fneg b)"

fun fmul :: "double \<Rightarrow> double \<Rightarrow> double" where
  "fmul (Fin x) (Fin y) = fl (x * y)"
| "fmul NaN b = NaN"
| "fmul a NaN = NaN"
| "fmul (Fin x) b = (if x = 0 then NaN else if 0 < x then b else fneg b)"
| "fmul a (Fin y) = (if y = 0 then NaN else if 0 < y then a else fneg a)"
| "fmul a b = (if a = b then PInf else NInf)"

text \<open>
  Division as the hardware (and NumPy) does it. Python's own \<open>/\<close> raises
  \<open>ZeroDivisionError\<close> on a zero divisor; every division of the module is by a non-zero
  constant or behind a test of the divisor against zero, so that case is never reached.
\<close>

fun fdiv :: "double \<Rightarrow> double \<Rightarrow> double" where
  "fdiv (Fin x) (Fin y) =
     (if y = 0 then (if x = 0 then NaN else if 0 < x then PInf else NInf) else fl (x / y))"
| "fdiv NaN b = NaN"
| "fdiv a NaN = NaN"
| "fdiv (Fin x) b = Fin 0"
| "fdiv a (Fin y) = (if 0 \<le> y then a else fneg a)"
| "fdiv a b = NaN"

text \<open>Comparisons: every comparison with a NaN is false.\<close>

fun fless :: "double \<Rightarrow> double \<Rightarrow> bool" where
  "fless (Fin x) (Fin y) = (x < y)"
| "fless NaN b = False"
| "fless a NaN = False"
| "fless a NInf = False"
| "fless PInf b = False"
| "fless a b = True"

definition feq :: "double \<Rightarrow> double \<Rightarrow> bool" where
  "feq a b = (a \<noteq> NaN \<and> a = b)"

definition fle :: "double \<Rightarrow> double \<Rightarrow> bool" where
  "fle a b = (fless a b \<or> feq a b)"

definition fge :: "double \<Rightarrow> double \<Rightarrow> bool" where
  "fge a b = fle b a"

definition fgt :: "double \<Rightarrow> double \<Rightarrow> bool" where
  "fgt a b = fless b a"

subsection \<open>Builtins of Python and NumPy used by the module\<close>

fun py_abs :: "double \<Rightarrow> double" where
  "py_abs (Fin x) = Fin \<bar>x\<bar>"
| "py_abs NaN = NaN"
| "py_abs a = PInf"

text \<open>
  \<open>min(a, b)\<close> and \<open>max(a, b)\<close> of two arguments keep the first unless the second is
  strictly smaller (larger); with a NaN second argument the first is returned.
\<close>

definition py_min :: "double \<Rightarrow> double \<Rightarrow> double" where
  "py_min a b = (if fless b a then b else a)"

definition py_max :: "double \<Rightarrow> double \<Rightarrow> double" where
  "py_max a b = (if fless a b then b else a)"

text \<open>
  \<open>round(x, n)\<close> of a Python float: the exact value of \<open>x\<close> is rounded to \<open>n\<close>
  decimals, a tie going to the even neighbour, and the decimal result is converted to the
  nearest float. Infinities and NaN round to themselves.
\<close>

fun py_round :: "double \<Rightarrow> nat \<Rightarrow> double" where
  "py_round (Fin x) n = fl (of_int (round_half_even (x * 10 ^ n)) / 10 ^ n)"
| "py_round a n = a"

text \<open>
  \<open>round(x, n)\<close> of a NumPy \<open>float64\<close> is NumPy's own rounding: multiply by
  \<open>10 ^ n\<close>, round to the nearest integer (\<open>rint\<close>, ties to even), divide by \<open>10 ^ n\<close>,
  each step a float operation.
\<close>

fun np_rint :: "double \<Rightarrow> double" where
  "np_rint (Fin x) = Fin (of_int (round_half_even x))"
| "np_rint a = a"

definition np_round :: "double \<Rightarrow> nat \<Rightarrow> double" where
  "np_round x n = fdiv (np_rint (fmul x (Fin (10 ^ n)))) (Fin (10 ^ n))"

text \<open>
  The dynamic type of a number decides which \<open>round\<close> runs: an \<open>int\<close> is returned as
  it is (for a non-negative number of digits).
\<close>

datatype pynum = PyIntNum int | PyFloatNum double | NpFloat64 double

fun builtin_round :: "pynum \<Rightarrow> nat \<Rightarrow> pynum" where
  "builtin_round (PyIntNum i) n = PyIntNum i"
| "builtin_round (PyFloatNum x) n = PyFloatNum (py_round x n)"
| "builtin_round (NpFloat64 x) n = NpFloat64 (np_round x n)"

fun float_of :: "pynum \<Rightarrow> double" where
  "float_of (PyIntNum i) = Fin (of_int i)"
| "float_of (PyFloatNum x) = x"
| "float_of (NpFloat64 x) = x"

datatype error = KeyError string | OverflowError | ValueError

text \<open>
  \<open>int(x)\<close> truncates towards zero; it raises \<open>OverflowError\<close> on an infinity and
  \<open>ValueError\<close> on a NaN.
\<close>

fun py_int :: "double \<Rightarrow> error + int" where
  "py_int (Fin x) = Inr (if 0 \<le> x then \<lfloor>x\<rfloor> else \<lceil>x\<rceil>)"
| "py_int NaN = Inl ValueError"
| "py_int a = Inl OverflowError"

text \<open>
  \<open>np.mean\<close> of a list of floats: the sum (\<open>np.add.reduce\<close>, started at zero) divided
  by the number of elements. NumPy adds a contiguous array by pairwise summation: fewer
  than 8 elements in order; up to 128 elements with 8 running sums over the full blocks of
  8, combined as a tree, then the remaining elements in order; more than 128 elements by
  halving (the first half cut to a multiple of 8).
\<close>

fun block_accumulate :: "double list \<Rightarrow> double list \<Rightarrow> double list" where
  "block_accumulate r xs =
     (if length xs < 8 then r
      else block_accumulate (map2 fadd r (take 8 xs)) (drop 8 xs))"

fun combine8 :: "double list \<Rightarrow> double" where
  "combine8 [r0, r1, r2, r3, r4, r5, r6, r7] =
     fadd (fadd (fadd r0 r1) (fadd r2 r3)) (fadd (fadd r4 r5) (fadd r6 r7))"
| "combine8 r = Fin 0"

function pairwise_sum :: "double list \<Rightarrow> double" where
  "pairwise_sum a =
     (let n = length a
      in if n < 8 then foldl fadd (Fin 0) a
         else if n \<le> 128 then
           (let m = n - n mod 8;
                r = block_accumulate (take 8 a) (drop 8 (take m a));
                res = combine8 r
            in foldl fadd res (drop m a))
         else
           (let n2 = n div 2;
                n2 = n2 - n2 mod 8
            in fadd (pairwise_sum (take n2 a)) (pairwise_sum (drop n2 a))))"
  by pat_completeness auto
termination
  by (relation "measure length") auto

declare pairwise_sum.simps [simp del] block_accumulate.simps [simp del]

definition np_mean :: "double list \<Rightarrow> double" where
  "np_mean a = fdiv (fadd (Fin 0) (pairwise_sum a)) (Fin (real (length a)))"

subsection \<open>Constants for KPI thresholds\<close>

definition SCHEDULE_THRESHOLD_YELLOW :: double where
  "SCHEDULE_THRESHOLD_YELLOW = fl 0.95"

definition SCHEDULE_THRESHOLD_RED :: double where
  "SCHEDULE_THRESHOLD_RED = fl 0.85"

definition COST_THRESHOLD_YELLOW :: double where
  "COST_THRESHOLD_YELLOW = fl 0.90"

definition COST_THRESHOLD_RED :: double where
  "COST_THRESHOLD_RED = fl 0.75"

subsection \<open>Index calculators\<close>

definition calculate_schedule_performance_index :: "double \<Rightarrow> double \<Rightarrow> double" where
  "calculate_schedule_performance_index earned_value planned_value =
     (if feq planned_value (Fin 0) then Fin 0
      else let spi = fdiv earned_value planned_value in py_round spi 3)"

definition calculate_cost_performance_index :: "double \<Rightarrow> double \<Rightarrow> double" where
  "calculate_cost_performance_index earned_value actual_cost =
     (if feq actual_cost (Fin 0) then Fin 0
      else let cpi = fdiv earned_value actual_cost in py_round cpi 3)"

subsection \<open>Health classification\<close>

text \<open>
  The running \<open>score\<close> of the source is an \<open>int\<close> through the two tiers and becomes a
  float when the risk adjustment is added; the status is read off the final score and the
  percentage is \<open>int(score)\<close>, which raises when the score is not finite.
\<close>

definition calculate_project_health :: "double \<Rightarrow> double \<Rightarrow> double \<Rightarrow> error + string \<times> int" where
  "calculate_project_health spi cpi risk_score =
     (let score = 0 :: int;
          score = (if fge spi (Fin 1) then score + 40
                   else if fge spi SCHEDULE_THRESHOLD_YELLOW then score + 25
                   else if fge spi SCHEDULE_THRESHOLD_RED then score + 10
                   else score);
          score = (if fge cpi (Fin 1) then score + 40
                   else if fge cpi COST_THRESHOLD_YELLOW then score + 25
                   else if fge cpi COST_THRESHOLD_RED then score + 10
                   else score);
          risk_adjustment =
            py_max (Fin 0) (fmul (Fin 20) (fsub (Fin 1) (fdiv risk_score (Fin 100))));
          score = fadd (Fin (of_int score)) risk_adjustment;
          status = (if fge score (Fin 75) then ''Green''
                    else if fge score (Fin 50) then ''Yellow''
                    else ''Red'')
      in case py_int score of
           Inl e \<Rightarrow> Inl e
         | Inr percentage \<Rightarrow> Inr (status, percentage))"

subsection \<open>Risk scoring\<close>

text \<open>
  \<open>base_score\<close> is a Python float while only the two variances have been added, and a
  NumPy \<open>float64\<close> once the mean of the risk factors has been added. \<open>min(100, base_score)\<close>
  is the \<open>int\<close> 100 unless \<open>base_score\<close> is smaller.
\<close>

definition calculate_risk_score :: "double \<Rightarrow> double \<Rightarrow> double list \<Rightarrow> double" where
  "calculate_risk_score schedule_variance cost_variance risk_factors =
     (let base_score = Fin 0;
          schedule_risk = py_min (Fin 100) (fmul (py_abs schedule_variance) (Fin 10));
          base_score = fadd base_score (fmul schedule_risk (fl 0.3));
          cost_risk = py_min (Fin 100) (fmul (py_abs cost_variance) (Fin 10));
          base_score = fadd base_score (fmul cost_risk (fl 0.3));
          base_score = (if risk_factors \<noteq> []
                        then let avg_factors = np_mean risk_factors
                             in NpFloat64 (fadd base_score (fmul avg_factors (fl 0.4)))
                        else PyFloatNum base_score);
          final_score = (if fless (float_of base_score) (Fin 100) then base_score
                         else PyIntNum 100)
      in float_of (builtin_round final_score 1))"

subsection \<open>The metrics record and the engine's state\<close>

text \<open>
  \<open>calculated_at\<close> holds a reading of the wall clock; a reading is an integer number
  of clock ticks.
\<close>

type_synonym datetime = int

record ProjectMetrics =
  project_id :: string
  schedule_performance_index :: double
  cost_performance_index :: double
  budget_variance :: double
  schedule_variance :: double
  risk_score :: double
  team_utilization :: double
  completion_percentage :: double
  health_status :: string
  calculated_at :: datetime

text \<open>
  The engine object. Only \<open>metrics_cache\<close> is read or written by the methods below
  (\<open>project_data\<close> is stored by the constructor and never used).
\<close>

record ProjectAnalytics =
  metrics_cache :: "string \<rightharpoonup> ProjectMetrics"

text \<open>
  The keyword arguments of \<open>calculate_metrics\<close>: the eight keys the method looks up,
  each present (\<open>Some\<close>) or absent (\<open>None\<close>). Values are floats, and a list of floats
  for \<open>risk_factors\<close>; keys the method never looks up have no effect and are not
  represented. \<open>kwargs_get field d\<close> is \<open>kwargs.get(key, d)\<close>.
\<close>

record kwargs =
  kw_earned_value :: "double option"
  kw_planned_value :: "double option"
  kw_actual_cost :: "double option"
  kw_schedule_variance :: "double option"
  kw_cost_variance :: "double option"
  kw_completion_percentage :: "double option"
  kw_team_utilization :: "double option"
  kw_risk_factors :: "double list option"

definition kwargs_get :: "'a option \<Rightarrow> 'a \<Rightarrow> 'a" where
  "kwargs_get field d = (case field of None \<Rightarrow> d | Some v \<Rightarrow> v)"

definition empty_kwargs :: kwargs where
  "empty_kwargs =
     \<lparr>kw_earned_value = None, kw_planned_value = None, kw_actual_cost = None,
      kw_schedule_variance = None, kw_cost_variance = None,
      kw_completion_percentage = None, kw_team_utilization = None,
      kw_risk_factors = None\<rparr>"

subsection \<open>Per-project orchestration\<close>

text \<open>
  \<open>now\<close> is the value \<open>datetime.now()\<close> returns during the call. The method returns
  the new record and leaves it in the cache under the project id; the model returns the
  record together with the updated engine. An exception of the health computation
  leaves the method (it is logged and raised again) before the cache is written.
\<close>

definition calculate_metrics ::
  "datetime \<Rightarrow> ProjectAnalytics \<Rightarrow> string \<Rightarrow> kwargs
     \<Rightarrow> (error + ProjectMetrics) \<times> ProjectAnalytics" where
  "calculate_metrics now self pid kwargs =
     (let ev = kwargs_get (kw_earned_value kwargs) (Fin 0);
          pv = kwargs_get (kw_planned_value kwargs) (Fin 100);
          ac = kwargs_get (kw_actual_cost kwargs) (Fin 0);
          sv = kwargs_get (kw_schedule_variance kwargs) (Fin 0);
          cv = kwargs_get (kw_cost_variance kwargs) (Fin 0);
          completion = kwargs_get (kw_completion_percentage kwargs) (Fin 0);
          utilization = kwargs_get (kw_team_utilization kwargs) (Fin 0);
          spi = calculate_schedule_performance_index ev pv;
          cpi = (if fgt ac (Fin 0) then calculate_cost_performance_index ev ac else Fin 1);
          risk_factors = kwargs_get (kw_risk_factors kwargs) [];
          risk = calculate_risk_score sv cv risk_factors
      in case calculate_project_health spi cpi risk of
           Inl e \<Rightarrow> (Inl e, self)
         | Inr (status, _) \<Rightarrow>
             (let metrics =
                    \<lparr>project_id = pid,
                     schedule_performance_index = spi,
                     cost_performance_index = cpi,
                     budget_variance = cv,
                     schedule_variance = sv,
                     risk_score = risk,
                     team_utilization = utilization,
                     completion_percentage = completion,
                     health_status = status,
                     calculated_at = now\<rparr>
              in (Inr metrics, self\<lparr>metrics_cache := (metrics_cache self)(pid \<mapsto> metrics)\<rparr>)))"

definition get_project_metrics :: "ProjectAnalytics \<Rightarrow> string \<Rightarrow> ProjectMetrics option" where
  "get_project_metrics self pid = metrics_cache self pid"

subsection \<open>Portfolio aggregation\<close>

text \<open>
  A project is a dictionary read at the keys \<open>id\<close> (by subscript: a missing key raises
  \<open>KeyError\<close>) and \<open>data\<close> (by \<open>get\<close>, an empty dictionary when missing).
\<close>

record project =
  proj_id :: "string option"
  proj_data :: "kwargs option"

text \<open>
  The summary dictionary holds Python integers (the counts and the initial zeros) and
  floats (the means).
\<close>

datatype pyval = PyInt int | PyFloat double

fun py_add :: "pyval \<Rightarrow> int \<Rightarrow> pyval" where
  "py_add (PyInt n) k = PyInt (n + k)"
| "py_add (PyFloat x) k = PyFloat (fadd x (Fin (of_int k)))"

text \<open>The local variables of the aggregation that the loop body updates.\<close>

record loop_state =
  engine :: ProjectAnalytics
  portfolio_metrics :: "string \<rightharpoonup> pyval"
  health_scores :: "double list"
  utilizations :: "double list"
  schedule_indices :: "double list"

text \<open>
  One iteration per project, in list order. The \<open>i\<close>-th iteration reads the clock once
  (\<open>clock i\<close>). An exception leaves the loop with the state reached so far.
\<close>

fun portfolio_loop ::
  "(nat \<Rightarrow> datetime) \<Rightarrow> nat \<Rightarrow> project list \<Rightarrow> loop_state \<Rightarrow> error option \<times> loop_state" where
  "portfolio_loop clock i [] s = (None, s)"
| "portfolio_loop clock i (proj # rest) s =
     (case proj_id proj of
        None \<Rightarrow> (Some (KeyError ''id''), s)
      | Some pid \<Rightarrow>
          (case calculate_metrics (clock i) (engine s) pid
                  (kwargs_get (proj_data proj) empty_kwargs) of
             (Inl e, self') \<Rightarrow> (Some e, s\<lparr>engine := self'\<rparr>)
           | (Inr metrics, self') \<Rightarrow>
               (let s = s\<lparr>engine := self',
                          health_scores := health_scores s @ [risk_score metrics],
                          utilizations := utilizations s @ [team_utilization metrics],
                          schedule_indices :=
                            schedule_indices s @ [schedule_performance_index metrics]\<rparr>
                in if health_status metrics = ''Red''
                   then (case portfolio_metrics s ''at_risk_count'' of
                           None \<Rightarrow> (Some (KeyError ''at_risk_count''), s)
                         | Some c \<Rightarrow>
                             portfolio_loop clock (Suc i) rest
                               (s\<lparr>portfolio_metrics :=
                                    (portfolio_metrics s)(''at_risk_count'' \<mapsto> py_add c 1)\<rparr>))
                   else portfolio_loop clock (Suc i) rest s)))"

definition calculate_portfolio_metrics ::
  "(nat \<Rightarrow> datetime) \<Rightarrow> ProjectAnalytics \<Rightarrow> project list
     \<Rightarrow> (error + (string \<rightharpoonup> pyval)) \<times> ProjectAnalytics" where
  "calculate_portfolio_metrics clock self projects =
     (if projects = [] then (Inr Map.empty, self)
      else
        let s0 =
              \<lparr>engine = self,
               portfolio_metrics =
                 [''total_projects'' \<mapsto> PyInt (int (length projects)),
                  ''avg_health_score'' \<mapsto> PyInt 0,
                  ''at_risk_count'' \<mapsto> PyInt 0,
                  ''avg_budget_utilization'' \<mapsto> PyInt 0,
                  ''avg_schedule_health'' \<mapsto> PyInt 0],
               health_scores = [],
               utilizations = [],
               schedule_indices = []\<rparr>
        in case portfolio_loop clock 0 projects s0 of
             (Some e, s) \<Rightarrow> (Inl e, engine s)
           | (None, s) \<Rightarrow>
               (let pm = portfolio_metrics s;
                    pm = pm(''avg_health_score'' \<mapsto>
                           (if health_scores s \<noteq> [] then PyFloat (np_mean (health_scores s))
                            else PyInt 0));
                    pm = pm(''avg_budget_utilization'' \<mapsto>
                           (if utilizations s \<noteq> [] then PyFloat (np_mean (utilizations s))
                            else PyInt 0));
                    pm = pm(''avg_schedule_health'' \<mapsto>
                           (if schedule_indices s \<noteq> [] then PyFloat (np_mean (schedule_indices s))
                            else PyInt 0))
                in (Inr pm, engine s)))"

subsection \<open>The specification's reading of two operations\<close>

text \<open>
  Two definitions that follow the specification's words rather than the source; the
  properties below compare the source's functions with them.

  \<open>spec_supply_defaults\<close> is "the same call with those defaults supplied explicitly":
  every absent field is filled in with the default the specification lists for it
  (\<open>earned_value = 0\<close>, \<open>planned_value = 100\<close>, \<open>actual_cost = 0\<close>,
  \<open>schedule_variance = 0\<close>, \<open>cost_variance = 0\<close>, \<open>completion_percentage = 0\<close>,
  \<open>team_utilization = 0\<close>, \<open>risk_factors = []\<close>), so that no field is absent.
\<close>

definition spec_supply_defaults :: "kwargs \<Rightarrow> kwargs" where
  "spec_supply_defaults kw =
     \<lparr>kw_earned_value = Some (case kw_earned_value kw of None \<Rightarrow> Fin 0 | Some v \<Rightarrow> v),
      kw_planned_value = Some (case kw_planned_value kw of None \<Rightarrow> Fin 100 | Some v \<Rightarrow> v),
      kw_actual_cost = Some (case kw_actual_cost kw of None \<Rightarrow> Fin 0 | Some v \<Rightarrow> v),
      kw_schedule_variance =
        Some (case kw_schedule_variance kw of None \<Rightarrow> Fin 0 | Some v \<Rightarrow> v),
      kw_cost_variance = Some (case kw_cost_variance kw of None \<Rightarrow> Fin 0 | Some v \<Rightarrow> v),
      kw_completion_percentage =
        Some (case kw_completion_percentage kw of None \<Rightarrow> Fin 0 | Some v \<Rightarrow> v),
      kw_team_utilization =
        Some (case kw_team_utilization kw of None \<Rightarrow> Fin 0 | Some v \<Rightarrow> v),
      kw_risk_factors = Some (case kw_risk_factors kw of None \<Rightarrow> [] | Some v \<Rightarrow> v)\<rparr>"

text \<open>
  \<open>spec_run_pipeline\<close> is "runs the per-project pipeline for every project,
  sequentially, in input order": the head of the list is computed first, on the engine
  as it is then, and the rest on the engine that call leaves behind. It gives the
  per-project records in input order and the final engine, or nothing when one of the
  computations fails. It is read only on projects that carry an id.
\<close>

fun spec_run_pipeline ::
  "(nat \<Rightarrow> datetime) \<Rightarrow> nat \<Rightarrow> ProjectAnalytics \<Rightarrow> project list
     \<Rightarrow> (ProjectMetrics list \<times> ProjectAnalytics) option" where
  "spec_run_pipeline clock i self [] = Some ([], self)"
| "spec_run_pipeline clock i self (p # ps) =
     (case calculate_metrics (clock i) self (the (proj_id p))
             (case proj_data p of None \<Rightarrow> empty_kwargs | Some d \<Rightarrow> d) of
        (Inl e, self') \<Rightarrow> None
      | (Inr m, self') \<Rightarrow>
          (case spec_run_pipeline clock (Suc i) self' ps of
             None \<Rightarrow> None
           | Some (ms, self'') \<Rightarrow> Some (m # ms, self'')))"

subsection \<open>Sample inputs\<close>

text \<open>
  The project of the module's \<open>__main__\<close> block, an engine with an empty cache, and a
  portfolio of three projects: one late and over budget by the same ratio, the sample
  project with another utilization, and one that carries only a utilization.
\<close>

definition sample_kwargs :: kwargs where
  "sample_kwargs =
     \<lparr>kw_earned_value = Some (Fin 750), kw_planned_value = Some (Fin 800),
      kw_actual_cost = Some (Fin 120000),
      kw_schedule_variance = Some (Fin (- 50)), kw_cost_variance = Some (Fin (- 5000)),
      kw_completion_percentage = Some (Fin 93.75), kw_team_utilization = Some (fl 0.85),
      kw_risk_factors = Some [Fin 25, Fin 30, Fin 20]\<rparr>"

definition fresh_engine :: ProjectAnalytics where
  "fresh_engine = \<lparr>metrics_cache = Map.empty\<rparr>"

definition late_kwargs :: kwargs where
  "late_kwargs =
     empty_kwargs\<lparr>kw_earned_value := Some (Fin 1799), kw_planned_value := Some (Fin 2000),
       kw_actual_cost := Some (Fin 2000), kw_team_utilization := Some (fl 0.1)\<rparr>"

text \<open>
  A project whose two risk factors are finite floats with a sum beyond the largest
  float.
\<close>

definition overflow_kwargs :: kwargs where
  "overflow_kwargs =
     empty_kwargs\<lparr>kw_risk_factors := Some [Fin (- (2 ^ 1023)), Fin (- (2 ^ 1023))]\<rparr>"

definition sample_projects :: "project list" where
  "sample_projects =
     [\<lparr>proj_id = Some ''PROJ-001'', proj_data = Some late_kwargs\<rparr>,
      \<lparr>proj_id = Some ''PROJ-002'',
       proj_data = Some (sample_kwargs\<lparr>kw_team_utilization := Some (fl 0.2)\<rparr>)\<rparr>,
      \<lparr>proj_id = Some ''PROJ-003'',
       proj_data = Some (empty_kwargs\<lparr>kw_team_utilization := Some (fl 0.3)\<rparr>)\<rparr>]"

section \<open>Properties\<close>

subsection \<open>Rounding\<close>

lemma round_half_even_ge:
  assumes "of_int k \<le> x"
  shows "k \<le> round_half_even x"
proof -
  from assms have "k \<le> \<lfloor>x\<rfloor>" by (simp add: le_floor_iff)
  then show ?thesis by (simp add: round_half_even_def Let_def)
qed

lemma round_half_even_le:
  assumes "x \<le> of_int k"
  shows "round_half_even x \<le> k"
proof (cases "x = of_int k")
  case True
  then show ?thesis by (simp add: round_half_even_def Let_def)
next
  case False
  with assms have "x < of_int k" by simp
  then have "\<lfloor>x\<rfloor> < k" by (simp add: floor_less_iff)
  then show ?thesis by (simp add: round_half_even_def Let_def)
qed

text \<open>The rounded value is a nearest integer: it is off by at most one half.\<close>

lemma round_half_even_close: "\<bar>of_int (round_half_even x) - x\<bar> \<le> 1 / 2"
proof -
  have "of_int \<lfloor>x\<rfloor> \<le> x" "x < of_int \<lfloor>x\<rfloor> + 1"
    by linarith+
  then show ?thesis
    by (auto simp add: round_half_even_def Let_def)
qed

lemma round_half_even_of_int: "round_half_even (of_int k) = k"
  by (simp add: round_half_even_def)

lemma ulp_pos: "0 < ulp x"
  by (simp add: ulp_def)

text \<open>Rounding to a float moves a number by at most half the spacing.\<close>

lemma round_to_ulp_close: "\<bar>round_to_ulp x - x\<bar> \<le> ulp x / 2"
proof -
  have "\<bar>of_int (round_half_even (x / ulp x)) - x / ulp x\<bar> * ulp x \<le> (1 / 2) * ulp x"
    by (rule mult_right_mono [OF round_half_even_close]) (simp add: ulp_pos less_imp_le)
  moreover have "\<bar>of_int (round_half_even (x / ulp x)) - x / ulp x\<bar> * ulp x
      = \<bar>round_to_ulp x - x\<bar>"
  proof -
    have "\<bar>of_int (round_half_even (x / ulp x)) - x / ulp x\<bar> * ulp x
        = \<bar>(of_int (round_half_even (x / ulp x)) - x / ulp x) * ulp x\<bar>"
      using ulp_pos [of x] by (simp add: abs_mult)
    also have "(of_int (round_half_even (x / ulp x)) - x / ulp x) * ulp x = round_to_ulp x - x"
      using ulp_pos [of x] by (simp add: round_to_ulp_def left_diff_distrib)
    finally show ?thesis .
  qed
  ultimately show ?thesis by simp
qed

lemma round_to_ulp_nonneg:
  assumes "0 \<le> x"
  shows "0 \<le> round_to_ulp x"
proof -
  from assms have "of_int 0 \<le> x / ulp x"
    using ulp_pos [of x] by simp
  then have "0 \<le> round_half_even (x / ulp x)"
    by (rule round_half_even_ge)
  then show ?thesis
    using ulp_pos [of x] by (simp add: round_to_ulp_def)
qed

lemma fl_Fin:
  assumes "\<bar>round_to_ulp x\<bar> < 2 ^ 1024"
  shows "fl x = Fin (round_to_ulp x)"
proof -
  from assms have "\<not> 2 ^ 1024 \<le> round_to_ulp x" and "\<not> round_to_ulp x \<le> - (2 ^ 1024)"
    by linarith+
  then show ?thesis
    unfolding fl_def Let_def by (simp only: if_False)
qed

lemma fl_0: "fl 0 = Fin 0"
  by (simp add: fl_def round_to_ulp_def round_half_even_def)

text \<open>A float that \<open>fl\<close> returns as finite is below the overflow threshold.\<close>

lemma fl_finite: "fl x = Fin y \<Longrightarrow> \<bar>y\<bar> < 2 ^ 1024"
  by (auto simp add: fl_def Let_def split: if_splits)

lemma ulp_eq:
  assumes "2 powr (of_int k) \<le> \<bar>x\<bar>" "\<bar>x\<bar> < 2 powr (of_int k + 1)" "- 1022 \<le> k"
  shows "ulp x = 2 powr (of_int k - 52)"
proof -
  have "0 < (2::real) powr (of_int k)" by simp
  with assms(1) have pos: "0 < \<bar>x\<bar>" by linarith
  have "\<lfloor>log 2 \<bar>x\<bar>\<rfloor> = k"
    using assms(1,2) pos floor_log_eq_powr_iff [of "\<bar>x\<bar>" 2 k] by simp
  moreover from assms(3) have "max k (- 1022) = k"
    by simp
  ultimately show ?thesis
    unfolding ulp_def by (simp only:)
qed

text \<open>The spacing is at most \<open>2 ^ -52\<close> of the number, or the subnormal spacing.\<close>

lemma ulp_le:
  assumes "x \<noteq> 0"
  shows "ulp x \<le> \<bar>x\<bar> / 2 ^ 52 + 1 / 2 ^ 1074"
proof -
  define e where "e = \<lfloor>log 2 \<bar>x\<bar>\<rfloor>"
  from assms have pos: "0 < \<bar>x\<bar>" by simp
  have "of_int e \<le> log 2 \<bar>x\<bar>"
    unfolding e_def by simp
  then have "2 powr (of_int e) \<le> 2 powr (log 2 \<bar>x\<bar>)"
    by simp
  with pos have le: "2 powr (of_int e) \<le> \<bar>x\<bar>"
    by simp
  show ?thesis
  proof (cases "- 1022 \<le> e")
    case True
    then have "max e (- 1022) = e"
      by simp
    then have "ulp x = 2 powr (of_int e - 52)"
      unfolding ulp_def e_def [symmetric] by (simp only:)
    also have "\<dots> = 2 powr (of_int e) / 2 powr 52"
      by (rule powr_diff)
    also have "\<dots> = 2 powr (of_int e) / 2 ^ 52"
      by simp
    also have "\<dots> \<le> \<bar>x\<bar> / 2 ^ 52"
      using le by (simp add: divide_right_mono)
    finally show ?thesis
      by (smt (verit) divide_nonneg_nonneg zero_le_power zero_le_one zero_le_numeral)
  next
    case False
    then have "max e (- 1022) = - 1022"
      by simp
    then have "ulp x = 2 powr (of_int (- 1022) - 52)"
      unfolding ulp_def e_def [symmetric] by (simp only:)
    then have "ulp x = 2 powr (- 1074)"
      by simp
    also have "\<dots> = 1 / 2 ^ 1074"
      by (simp only: powr_minus inverse_eq_divide powr_numeral zero_le_numeral)
    finally show ?thesis
      using pos by simp
  qed
qed

text \<open>
  Below half the overflow threshold, rounding gives a finite float, at most one percent
  larger in magnitude than the bound of its argument.
\<close>

lemma fl_finite_bound:
  assumes "\<bar>x\<bar> \<le> B" "1 \<le> B" "B \<le> 2 ^ 1023"
  shows "\<exists>y. fl x = Fin y \<and> \<bar>y\<bar> \<le> 101 / 100 * B"
proof (cases "x = 0")
  case True
  with assms(2) show ?thesis
    by (simp add: fl_0)
next
  case False
  have "\<bar>round_to_ulp x - x\<bar> \<le> ulp x / 2"
    by (rule round_to_ulp_close)
  moreover have "ulp x \<le> \<bar>x\<bar> / 2 ^ 52 + 1 / 2 ^ 1074"
    using False by (rule ulp_le)
  moreover have "\<bar>x\<bar> / 2 ^ 52 \<le> B / 2 ^ 52"
    using assms(1) by (simp add: divide_right_mono)
  moreover have "B / 2 ^ 52 \<le> B / 200"
    using assms(2) by (simp add: field_simps)
  moreover have "(1::real) / 2 ^ 1074 \<le> 1 / 200"
    by simp
  ultimately have b: "\<bar>round_to_ulp x\<bar> \<le> 101 / 100 * B"
    using assms(1,2) by linarith
  have "(2::real) ^ 1024 = 2 * 2 ^ 1023"
    by simp
  with b assms(3) have "\<bar>round_to_ulp x\<bar> < 2 ^ 1024"
    using assms(2) by linarith
  then have "fl x = Fin (round_to_ulp x)"
    by (rule fl_Fin)
  with b show ?thesis
    by blast
qed

lemma fl_nonneg:
  assumes "0 \<le> x" "fl x = Fin y"
  shows "0 \<le> y"
proof -
  from assms(2) have "y = round_to_ulp x"
    by (auto simp add: fl_def Let_def split: if_splits)
  with assms(1) show ?thesis
    by (simp add: round_to_ulp_nonneg)
qed

text \<open>
  Evaluation of \<open>fl\<close> once the binade of the argument is known: between \<open>2 ^ -j\<close> and
  \<open>2 ^ (1 - j)\<close>, and between \<open>2 ^ k\<close> and \<open>2 ^ (k + 1)\<close>.
\<close>

lemma fl_of_ulp:
  assumes "ulp x = 1 / 2 ^ n" "\<bar>x\<bar> * 2 ^ n < 2 ^ 53"
  shows "fl x = Fin (of_int (round_half_even (x * 2 ^ n)) / 2 ^ n)"
proof -
  define m where "m = round_half_even (x * 2 ^ n)"
  have "x / (1 / 2 ^ n) = x * 2 ^ n"
    by simp
  then have r: "round_to_ulp x = real_of_int m / 2 ^ n"
    unfolding round_to_ulp_def assms(1) m_def by (simp only:) simp
  have "\<bar>real_of_int m - x * 2 ^ n\<bar> \<le> 1 / 2"
    unfolding m_def by (rule round_half_even_close)
  moreover have "\<bar>x * 2 ^ n\<bar> < 2 ^ 53"
    using assms(2) by (simp add: abs_mult)
  ultimately have "\<bar>real_of_int m\<bar> < 2 ^ 53 + 1"
    by linarith
  then have mb: "\<bar>real_of_int m\<bar> < 2 ^ 54"
    by simp
  have "\<bar>real_of_int m / 2 ^ n\<bar> \<le> \<bar>real_of_int m\<bar>"
    by (simp add: abs_divide field_simps mult_le_cancel_left1 abs_mult)
  moreover have "(2::real) ^ 54 \<le> 2 ^ 1024"
    by (rule power_increasing) simp_all
  ultimately have "\<bar>round_to_ulp x\<bar> < 2 ^ 1024"
    unfolding r using mb by linarith
  then have "fl x = Fin (round_to_ulp x)"
    by (rule fl_Fin)
  then show ?thesis
    by (simp only: r m_def)
qed

lemma fl_eval_neg:
  assumes "1 / 2 ^ j \<le> \<bar>x\<bar>" "\<bar>x\<bar> < 2 / 2 ^ j" "j \<le> 1022"
  shows "fl x = Fin (of_int (round_half_even (x * 2 ^ (52 + j))) / 2 ^ (52 + j))"
proof (rule fl_of_ulp)
  have p1: "(2::real) powr (of_int (- int j)) = 1 / 2 ^ j"
    by (simp add: powr_minus powr_realpow inverse_eq_divide)
  have "(2::real) powr (of_int (- int j) + 1) = 2 powr (of_int (- int j)) * 2 powr 1"
    by (rule powr_add)
  then have p2: "(2::real) powr (of_int (- int j) + 1) = 2 / 2 ^ j"
    unfolding p1 by simp
  have a1: "2 powr (of_int (- int j)) \<le> \<bar>x\<bar>"
    unfolding p1 by (rule assms(1))
  have a2: "\<bar>x\<bar> < 2 powr (of_int (- int j) + 1)"
    unfolding p2 by (rule assms(2))
  have a3: "- 1022 \<le> - int j"
    using assms(3) by simp
  have "ulp x = 2 powr (of_int (- int j) - 52)"
    by (rule ulp_eq [OF a1 a2 a3])
  also have "\<dots> = 2 powr (- real (52 + j))"
  proof -
    have "real_of_int (- int j) - 52 = - real (52 + j)" by simp
    then show ?thesis by (simp only:)
  qed
  also have "\<dots> = 1 / 2 ^ (52 + j)"
    by (simp only: powr_minus powr_realpow inverse_eq_divide zero_less_numeral)
  finally show "ulp x = 1 / 2 ^ (52 + j)" .
  have "\<bar>x\<bar> * 2 ^ (52 + j) < (2 / 2 ^ j) * 2 ^ (52 + j)"
    by (rule mult_strict_right_mono [OF assms(2)]) simp
  also have "\<dots> = 2 ^ 53"
    by (simp add: power_add)
  finally show "\<bar>x\<bar> * 2 ^ (52 + j) < 2 ^ 53" .
qed

lemma fl_eval_pos:
  assumes "2 ^ k \<le> \<bar>x\<bar>" "\<bar>x\<bar> < 2 * 2 ^ k" "k \<le> 52"
  shows "fl x = Fin (of_int (round_half_even (x * 2 ^ (52 - k))) / 2 ^ (52 - k))"
proof (rule fl_of_ulp)
  have p1: "(2::real) powr (of_int (int k)) = 2 ^ k"
    by (simp add: powr_realpow)
  have "(2::real) powr (of_int (int k) + 1) = 2 powr (of_int (int k)) * 2 powr 1"
    by (rule powr_add)
  then have p2: "(2::real) powr (of_int (int k) + 1) = 2 * 2 ^ k"
    unfolding p1 by simp
  have a1: "2 powr (of_int (int k)) \<le> \<bar>x\<bar>"
    unfolding p1 by (rule assms(1))
  have a2: "\<bar>x\<bar> < 2 powr (of_int (int k) + 1)"
    unfolding p2 by (rule assms(2))
  have a3: "- 1022 \<le> int k"
    by simp
  have "ulp x = 2 powr (of_int (int k) - 52)"
    by (rule ulp_eq [OF a1 a2 a3])
  also have "\<dots> = 2 powr (- real (52 - k))"
  proof -
    have "real_of_int (int k) - 52 = - real (52 - k)"
      using assms(3) by simp
    then show ?thesis by (simp only:)
  qed
  also have "\<dots> = 1 / 2 ^ (52 - k)"
    by (simp only: powr_minus powr_realpow inverse_eq_divide zero_less_numeral)
  finally show "ulp x = 1 / 2 ^ (52 - k)" .
  have "\<bar>x\<bar> * 2 ^ (52 - k) < (2 * 2 ^ k) * 2 ^ (52 - k)"
    by (rule mult_strict_right_mono [OF assms(2)]) simp
  also have "\<dots> = 2 ^ 53"
    using assms(3) by (simp add: power_add [symmetric])
  finally show "\<bar>x\<bar> * 2 ^ (52 - k) < 2 ^ 53" .
qed

lemmas fl_evals =
  fl_0
  fl_eval_neg [where j = 0] fl_eval_neg [where j = 1] fl_eval_neg [where j = 2]
  fl_eval_neg [where j = 3] fl_eval_neg [where j = 4] fl_eval_neg [where j = 5]
  fl_eval_neg [where j = 6] fl_eval_neg [where j = 7] fl_eval_neg [where j = 8]
  fl_eval_neg [where j = 9] fl_eval_neg [where j = 10] fl_eval_neg [where j = 11]
  fl_eval_pos [where k = 1] fl_eval_pos [where k = 2] fl_eval_pos [where k = 3]
  fl_eval_pos [where k = 4] fl_eval_pos [where k = 5] fl_eval_pos [where k = 6]
  fl_eval_pos [where k = 7] fl_eval_pos [where k = 8] fl_eval_pos [where k = 9]
  fl_eval_pos [where k = 10] fl_eval_pos [where k = 11] fl_eval_pos [where k = 12]
  fl_eval_pos [where k = 13] fl_eval_pos [where k = 14] fl_eval_pos [where k = 15]
  fl_eval_pos [where k = 16]

text \<open>The sum of two floats can leave the range: \<open>- 2 ^ 1024\<close> rounds to \<open>-inf\<close>.\<close>

lemma fl_neg_overflow: "fl (- (2 ^ 1024)) = NInf"
proof -
  define big :: real where "big = 2 ^ 1024"
  have big_pos: "0 < big"
    unfolding big_def by (rule zero_less_power) simp
  have p1: "(2::real) powr (of_int 1024) = big"
    unfolding big_def using powr_realpow [of "2::real" 1024] by simp
  have "(2::real) powr (of_int 1024 + 1) = 2 powr (of_int 1024) * 2 powr 1"
    by (rule powr_add)
  then have p2: "(2::real) powr (of_int 1024 + 1) = 2 * big"
    unfolding p1 by simp
  have u: "ulp (- big) = 2 powr (of_int 1024 - 52)"
  proof (rule ulp_eq)
    show "2 powr real_of_int 1024 \<le> \<bar>- big\<bar>"
      unfolding p1 using big_pos by simp
    show "\<bar>- big\<bar> < 2 powr (real_of_int 1024 + 1)"
      unfolding p2 using big_pos by simp
    show "- 1022 \<le> (1024::int)"
      by simp
  qed
  have "(2::real) powr (of_int 1024 - 52) = 2 powr (real (972::nat))"
    by simp
  also have "\<dots> = 2 ^ 972"
    by (rule powr_realpow) simp
  finally have u': "ulp (- big) = 2 ^ 972"
    unfolding u .
  have split: "big = 2 ^ 52 * 2 ^ 972"
    unfolding big_def power_add [symmetric] by simp
  have "- big / 2 ^ 972 = of_int (- (2 ^ 52))"
    unfolding split by simp
  then have "round_half_even (- big / 2 ^ 972) = - (2 ^ 52)"
    by (simp only: round_half_even_of_int)
  then have "round_to_ulp (- big) = of_int (- (2 ^ 52)) * 2 ^ 972"
    unfolding round_to_ulp_def u' by (simp only:)
  also have "\<dots> = - big"
    unfolding split by simp
  finally have r: "round_to_ulp (- big) = - big" .
  have "\<not> big \<le> - big"
    using big_pos by linarith
  then have "fl (- big) = NInf"
    unfolding fl_def Let_def r big_def [symmetric] by (simp only: if_False order_refl if_True)
  then show ?thesis
    unfolding big_def .
qed

subsection \<open>Arithmetic with special operands\<close>

lemma fadd_0_left: "fadd (Fin 0) b = b"
  by (cases b) simp_all

lemma fadd_0_right: "fadd a (Fin 0) = a"
  by (cases a) simp_all

lemma fge_Fin: "fge (Fin x) (Fin y) \<longleftrightarrow> y \<le> x"
  by (auto simp add: fge_def fle_def feq_def)

lemma fgt_Fin: "fgt (Fin x) (Fin y) \<longleftrightarrow> y < x"
  by (simp add: fgt_def)

lemma feq_Fin: "feq (Fin x) (Fin y) \<longleftrightarrow> x = y"
  by (simp add: feq_def)

lemmas fcompare = fge_Fin fgt_Fin feq_Fin

text \<open>
  \<open>round(x, n)\<close> of a float is the float nearest to a decimal with \<open>n\<close> digits that is
  nearest to \<open>x\<close>.
\<close>

lemma py_round_decimal:
  "\<exists>k. py_round (Fin x) n = fl (of_int k / 10 ^ n) \<and>
       \<bar>of_int k / 10 ^ n - x\<bar> \<le> 1 / (2 * 10 ^ n)"
proof -
  define k where "k = round_half_even (x * 10 ^ n)"
  have "\<bar>of_int k - x * 10 ^ n\<bar> \<le> 1 / 2"
    unfolding k_def by (rule round_half_even_close)
  then have "\<bar>of_int k - x * 10 ^ n\<bar> / 10 ^ n \<le> (1 / 2) / 10 ^ n"
    by (rule divide_right_mono) simp
  moreover have "\<bar>of_int k - x * 10 ^ n\<bar> / 10 ^ n = \<bar>of_int k / 10 ^ n - x\<bar>"
  proof -
    have p: "(0::real) < 10 ^ n"
      by simp
    have "of_int k / 10 ^ n - x = (of_int k - x * 10 ^ n) / 10 ^ n"
      by (simp add: diff_divide_distrib)
    then have "\<bar>of_int k / 10 ^ n - x\<bar> = \<bar>(of_int k - x * 10 ^ n) / 10 ^ n\<bar>"
      by (simp only:)
    also have "\<dots> = \<bar>of_int k - x * 10 ^ n\<bar> / \<bar>10 ^ n\<bar>"
      by (rule abs_divide)
    also have "\<bar>(10::real) ^ n\<bar> = 10 ^ n"
      using p by (rule abs_of_pos)
    finally show ?thesis
      by (rule sym)
  qed
  ultimately have "\<bar>of_int k / 10 ^ n - x\<bar> \<le> 1 / (2 * 10 ^ n)"
    by simp
  then show ?thesis
    unfolding k_def by auto
qed

subsection \<open>Index calculators\<close>

text \<open>
  Claim C5. For every earned value and planned value,
  \<open>calculate_schedule_performance_index\<close> returns \<open>0.0\<close> when the planned value
  equals zero, and \<open>round(earned_value / planned_value, 3)\<close> otherwise: the float
  quotient, rounded by Python's \<open>round\<close>. The function returns a float on all floats
  (infinities and NaN included); it has no failure to return.
\<close>

theorem schedule_performance_index_contract:
  "calculate_schedule_performance_index ev pv =
     (if feq pv (Fin 0) then Fin 0 else py_round (fdiv ev pv) 3)"
  by (simp add: calculate_schedule_performance_index_def)

text \<open>
  Evaluations: a zero planned value; the sample project; \<open>1 / 2000\<close>, a float just above
  the tie \<open>0.0005\<close>, which rounds up to \<open>0.001\<close>; \<open>1799 / 2000\<close>, a float just below the
  tie \<open>0.8995\<close>, which rounds down to \<open>0.899\<close>; an infinite planned value.
\<close>

theorem schedule_performance_index_contract_witness:
  "calculate_schedule_performance_index (Fin 750) (Fin 0) = Fin 0 \<and>
   calculate_schedule_performance_index (Fin 750) (Fin 800) = fl 0.938 \<and>
   calculate_schedule_performance_index (Fin 1) (Fin 2000) = fl 0.001 \<and>
   calculate_schedule_performance_index (Fin 1799) (Fin 2000) = fl 0.899 \<and>
   calculate_schedule_performance_index (Fin 1) PInf = Fin 0"
  using schedule_performance_index_contract [of "Fin 750" "Fin 0"]
    schedule_performance_index_contract [of "Fin 750" "Fin 800"]
    schedule_performance_index_contract [of "Fin 1" "Fin 2000"]
    schedule_performance_index_contract [of "Fin 1799" "Fin 2000"]
    schedule_performance_index_contract [of "Fin 1" PInf]
  by (simp add: fcompare feq_def fl_evals round_half_even_def)

subsection \<open>Health classification\<close>

text \<open>
  The risk adjustment of a finite risk score is a finite, non-negative float: none of the
  three operations overflows.
\<close>

lemma risk_adjustment_finite:
  assumes "finite_double r"
  shows "\<exists>a. py_max (Fin 0) (fmul (Fin 20) (fsub (Fin 1) (fdiv r (Fin 100)))) = Fin a
           \<and> 0 \<le> a \<and> a \<le> 22 * 2 ^ 1018"
proof -
  define big :: real where "big = 2 ^ 1018"
  have big: "100 \<le> big"
    unfolding big_def by simp
  have top: "(2::real) ^ 1024 = 64 * big" "(2::real) ^ 1023 = 32 * big"
    unfolding big_def by simp_all
  from assms obtain x where r: "r = Fin x" and x: "\<bar>x\<bar> < 2 ^ 1024"
    by (auto simp add: finite_double_def split: double.splits)
  have "\<bar>x / 100\<bar> \<le> big"
    using x unfolding top by simp
  moreover have "1 \<le> big" "big \<le> 2 ^ 1023"
    using big unfolding top by simp_all
  ultimately obtain q where q: "fl (x / 100) = Fin q" "\<bar>q\<bar> \<le> 101 / 100 * big"
    using fl_finite_bound [of "x / 100" big] by blast
  have "\<bar>1 + - q\<bar> \<le> 102 / 100 * big"
    using q(2) big by linarith
  moreover have "1 \<le> 102 / 100 * big" "102 / 100 * big \<le> 2 ^ 1023"
    using big unfolding top by simp_all
  ultimately obtain d where d: "fl (1 + - q) = Fin d" "\<bar>d\<bar> \<le> 101 / 100 * (102 / 100 * big)"
    using fl_finite_bound [of "1 + - q" "102 / 100 * big"] by blast
  have "\<bar>20 * d\<bar> \<le> 21 * big"
    using d(2) big by linarith
  moreover have "1 \<le> 21 * big" "21 * big \<le> 2 ^ 1023"
    using big unfolding top by simp_all
  ultimately obtain m where m: "fl (20 * d) = Fin m" "\<bar>m\<bar> \<le> 101 / 100 * (21 * big)"
    using fl_finite_bound [of "20 * d" "21 * big"] by blast
  have sub: "fsub (Fin 1) (fdiv r (Fin 100)) = (if q = 0 then Fin 1 else Fin d)"
    using q(1) d(1) by (simp add: r fsub_def)
  show ?thesis
  proof (cases "q = 0")
    case True
    then have "fmul (Fin 20) (fsub (Fin 1) (fdiv r (Fin 100))) = fl 20"
      using sub by simp
    also have "fl 20 = Fin 20"
      by (simp add: fl_evals round_half_even_def)
    finally show ?thesis
      using big by (simp add: py_max_def big_def)
  next
    case False
    then have "fmul (Fin 20) (fsub (Fin 1) (fdiv r (Fin 100))) = Fin m"
      using sub m(1) by simp
    then have "py_max (Fin 0) (fmul (Fin 20) (fsub (Fin 1) (fdiv r (Fin 100))))
        = Fin (if 0 < m then m else 0)"
      by (simp add: py_max_def)
    moreover have "(if 0 < m then m else 0) \<le> 22 * big"
      using m(2) big by (simp split: if_splits) linarith
    ultimately show ?thesis
      unfolding big_def by auto
  qed
qed

text \<open>
  The health computation on a finite risk score: the float sum of the two tiers and the
  risk adjustment is finite and non-negative, so \<open>int\<close> does not raise; the status is
  read off that sum and the percentage is its integer part.
\<close>

lemma calculate_project_health_score:
  assumes "finite_double r"
  shows "\<exists>score.
      fadd (Fin (of_int
              ((if fge spi (Fin 1) then 40 else if fge spi (fl 0.95) then 25
                else if fge spi (fl 0.85) then 10 else 0) +
               (if fge cpi (Fin 1) then 40 else if fge cpi (fl 0.90) then 25
                else if fge cpi (fl 0.75) then 10 else 0))))
        (py_max (Fin 0) (fmul (Fin 20) (fsub (Fin 1) (fdiv r (Fin 100))))) = Fin score \<and>
      0 \<le> score \<and>
      calculate_project_health spi cpi r =
        Inr (if 75 \<le> score then ''Green'' else if 50 \<le> score then ''Yellow'' else ''Red'',
             \<lfloor>score\<rfloor>)"
proof -
  define schedule :: int where
    "schedule = (if fge spi (Fin 1) then 40 else if fge spi (fl 0.95) then 25
                 else if fge spi (fl 0.85) then 10 else 0)"
  define cost :: int where
    "cost = (if fge cpi (Fin 1) then 40 else if fge cpi (fl 0.90) then 25
             else if fge cpi (fl 0.75) then 10 else 0)"
  define adjustment where
    "adjustment = py_max (Fin 0) (fmul (Fin 20) (fsub (Fin 1) (fdiv r (Fin 100))))"
  have tiers: "0 \<le> schedule" "schedule \<le> 40" "0 \<le> cost" "cost \<le> 40"
    by (simp_all add: schedule_def cost_def)
  from risk_adjustment_finite [OF assms]
  obtain a where a: "adjustment = Fin a" "0 \<le> a" "a \<le> 22 * 2 ^ 1018"
    unfolding adjustment_def by blast
  define n :: real where "n = of_int (schedule + cost)"
  have n: "0 \<le> n" "n \<le> 80"
    using tiers by (simp_all add: n_def)
  have "\<exists>score. fadd (Fin n) (Fin a) = Fin score \<and> 0 \<le> score"
  proof (cases "n = 0 \<or> a = 0")
    case True
    then show ?thesis
      using n(1) a(2) by auto
  next
    case False
    have "(2::real) ^ 1023 = 32 * 2 ^ 1018"
      by simp
    moreover have "(100::real) \<le> 2 ^ 1018"
      by simp
    ultimately have "\<bar>n + a\<bar> \<le> 23 * 2 ^ 1018" "1 \<le> (23::real) * 2 ^ 1018"
      "(23::real) * 2 ^ 1018 \<le> 2 ^ 1023"
      using n a(2,3) by linarith+
    then obtain s where s: "fl (n + a) = Fin s"
      using fl_finite_bound [of "n + a" "23 * 2 ^ 1018"] by blast
    moreover have "0 \<le> s"
      using n(1) a(2) by (intro fl_nonneg [OF _ s]) simp
    ultimately show ?thesis
      using False by auto
  qed
  then obtain score where score: "fadd (Fin n) adjustment = Fin score" "0 \<le> score"
    unfolding a(1) by blast
  have tier: "(if b then (x::int) + u else if c then x + v else if d then x + w else x)
       = x + (if b then u else if c then v else if d then w else 0)" for b c d x u v w
    by simp
  have "calculate_project_health spi cpi r =
     (let sc = fadd (Fin (of_int (schedule + cost))) adjustment;
          st = (if fge sc (Fin 75) then ''Green''
                else if fge sc (Fin 50) then ''Yellow'' else ''Red'')
      in case py_int sc of Inl e \<Rightarrow> Inl e | Inr p \<Rightarrow> Inr (st, p))"
    unfolding calculate_project_health_def SCHEDULE_THRESHOLD_YELLOW_def
      SCHEDULE_THRESHOLD_RED_def COST_THRESHOLD_YELLOW_def COST_THRESHOLD_RED_def
      Let_def tier schedule_def cost_def adjustment_def
    by (simp only: add_0)
  then have "calculate_project_health spi cpi r =
        Inr (if 75 \<le> score then ''Green'' else if 50 \<le> score then ''Yellow'' else ''Red'',
             \<lfloor>score\<rfloor>)"
    using score [unfolded n_def] by (simp add: Let_def fcompare)
  with score [unfolded n_def] show ?thesis
    unfolding schedule_def cost_def adjustment_def by blast
qed

lemma calculate_project_health_returns:
  assumes "finite_double r"
  shows "\<exists>status percentage. calculate_project_health spi cpi r = Inr (status, percentage)"
  using calculate_project_health_score [OF assms, of spi cpi] by blast

text \<open>
  Claim C1. For all floats \<open>spi\<close> and \<open>cpi\<close> and every finite risk score \<open>r\<close>,
  \<open>calculate_project_health\<close> returns a status and a percentage. The score is the sum
  of the schedule tier (40, 25, 10 or 0 at the thresholds 1.0, 0.95, 0.85), the cost tier
  (40, 25, 10 or 0 at the thresholds 1.0, 0.90, 0.75) and the risk adjustment
  \<open>max(0, 20 * (1 - r / 100))\<close>, every operation being Python's on floats (each result
  rounded to the nearest float). The score is a finite, non-negative float. The status is
  Green exactly when the score is at least 75, Yellow exactly when it is at least 50 and
  below 75, Red exactly when it is below 50; the percentage is the score truncated to an
  integer.
\<close>

theorem calculate_project_health_contract:
  assumes "finite_double r"
  shows
    "(let schedule =
            (if fge spi (Fin 1) then 40 else if fge spi (fl 0.95) then 25
             else if fge spi (fl 0.85) then 10 else 0);
          cost =
            (if fge cpi (Fin 1) then 40 else if fge cpi (fl 0.90) then 25
             else if fge cpi (fl 0.75) then 10 else 0);
          adjustment = py_max (Fin 0) (fmul (Fin 20) (fsub (Fin 1) (fdiv r (Fin 100))))
      in \<exists>score status percentage.
           fadd (Fin (of_int (schedule + cost))) adjustment = Fin score \<and>
           calculate_project_health spi cpi r = Inr (status, percentage) \<and>
           (status = ''Green'' \<longleftrightarrow> 75 \<le> score) \<and>
           (status = ''Yellow'' \<longleftrightarrow> 50 \<le> score \<and> score < 75) \<and>
           (status = ''Red'' \<longleftrightarrow> score < 50) \<and>
           0 \<le> score \<and> percentage = \<lfloor>score\<rfloor>)"
proof -
  from calculate_project_health_score [OF assms, of spi cpi]
  obtain score where score:
    "fadd (Fin (of_int
              ((if fge spi (Fin 1) then 40 else if fge spi (fl 0.95) then 25
                else if fge spi (fl 0.85) then 10 else 0) +
               (if fge cpi (Fin 1) then 40 else if fge cpi (fl 0.90) then 25
                else if fge cpi (fl 0.75) then 10 else 0))))
        (py_max (Fin 0) (fmul (Fin 20) (fsub (Fin 1) (fdiv r (Fin 100))))) = Fin score"
    "0 \<le> score"
    "calculate_project_health spi cpi r =
        Inr (if 75 \<le> score then ''Green'' else if 50 \<le> score then ''Yellow'' else ''Red'',
             \<lfloor>score\<rfloor>)"
    by blast
  define status where
    "status = (if 75 \<le> score then ''Green'' else if 50 \<le> score then ''Yellow'' else ''Red'')"
  have "(status = ''Green'' \<longleftrightarrow> 75 \<le> score) \<and>
        (status = ''Yellow'' \<longleftrightarrow> 50 \<le> score \<and> score < 75) \<and>
        (status = ''Red'' \<longleftrightarrow> score < 50)"
    by (simp add: status_def)
  with score show ?thesis
    unfolding Let_def status_def [symmetric] by blast
qed

text \<open>
  Evaluations. At \<open>(0.5, 0.5, 80.0)\<close> the float adjustment is \<open>3.999999999999999\<close>, so
  the percentage is 3. At \<open>(0.95, 0.75, 25 + 2^-48)\<close> the float adjustment is exactly 15
  and the score exactly 50, so the status is Yellow. At \<open>(1.0, 0.9, 50.0)\<close> the score is
  exactly 75 and the status Green.
\<close>

theorem calculate_project_health_contract_witness:
  "finite_double (Fin 80) \<and>
   calculate_project_health (fl 0.5) (fl 0.5) (Fin 80) = Inr (''Red'', 3) \<and>
   calculate_project_health (fl 0.95) (fl 0.75) (Fin (25 + 1 / 2 ^ 48)) = Inr (''Yellow'', 50) \<and>
   calculate_project_health (Fin 1) (fl 0.9) (Fin 50) = Inr (''Green'', 75)"
  using calculate_project_health_contract [of "Fin 80" "fl 0.5" "fl 0.5"]
    calculate_project_health_contract [of "Fin (25 + 1 / 2 ^ 48)" "fl 0.95" "fl 0.75"]
    calculate_project_health_contract [of "Fin 50" "Fin 1" "fl 0.9"]
  by (simp add: finite_double_def fcompare fsub_def py_max_def fl_evals round_half_even_def
      del: divide_eq_eq_numeral1 eq_divide_eq_numeral1)

subsection \<open>Risk scoring\<close>

lemma pairwise_sum_short: "length a < 8 \<Longrightarrow> pairwise_sum a = foldl fadd (Fin 0) a"
  by (simp add: pairwise_sum.simps)

lemma fl_100: "fl 100 = Fin 100"
  by (simp add: fl_evals round_half_even_def)

lemma py_round_100: "py_round (Fin 100) (Suc 0) = Fin 100"
  by (simp add: fl_evals round_half_even_def)

lemma np_round_100: "np_round (Fin 100) (Suc 0) = Fin 100"
  by (simp add: np_round_def fl_evals round_half_even_def)

text \<open>
  Claim C2. For all floats \<open>schedule_variance\<close> and \<open>cost_variance\<close> and every list of
  floats \<open>risk_factors\<close>, \<open>calculate_risk_score\<close> returns
  \<open>round(min(100, S + C + F), 1)\<close> with \<open>S = min(100, |schedule_variance| * 10) * 0.3\<close>,
  \<open>C = min(100, |cost_variance| * 10) * 0.3\<close> and \<open>F = mean(risk_factors) * 0.4\<close> for a
  non-empty list, \<open>F = 0\<close> for the empty one. Every operation is the float operation
  of the source: the mean is \<open>np.mean\<close>, and \<open>round\<close> is the rounding of a Python float
  for the empty list and of a NumPy \<open>float64\<close> for a non-empty one (the mean makes the sum
  a \<open>float64\<close>).
\<close>

theorem calculate_risk_score_formula:
  "calculate_risk_score sv cv rfs =
     (let S = fmul (py_min (Fin 100) (fmul (py_abs sv) (Fin 10))) (fl 0.3);
          C = fmul (py_min (Fin 100) (fmul (py_abs cv) (Fin 10))) (fl 0.3);
          F = (if rfs \<noteq> [] then fmul (np_mean rfs) (fl 0.4) else Fin 0);
          total = py_min (Fin 100) (fadd (fadd S C) F)
      in if rfs = [] then py_round total 1 else np_round total 1)"
  by (simp add: calculate_risk_score_def Let_def py_min_def fadd_0_left fadd_0_right
      py_round_100 np_round_100 del: py_round.simps)

text \<open>
  Evaluations. The variances \<open>0.05\<close> and \<open>0\<close> give the sum \<open>0.15\<close> (the float just
  below it): with no risk factor Python's \<open>round\<close> gives \<open>0.1\<close>, with the single risk
  factor \<open>0\<close> NumPy's gives \<open>0.2\<close>. The single risk factor \<open>3.625\<close> gives \<open>1.5\<close>. The
  sample project gives \<open>70\<close>. Variances beyond the cap give 60.
\<close>

theorem calculate_risk_score_formula_witness:
  "calculate_risk_score (fl 0.05) (Fin 0) [] = fl 0.1 \<and>
   calculate_risk_score (fl 0.05) (Fin 0) [Fin 0] = fl 0.2 \<and>
   calculate_risk_score (Fin 0) (Fin 0) [fl 3.625] = Fin 1.5 \<and>
   calculate_risk_score (Fin (- 50)) (Fin (- 5000)) [Fin 25, Fin 30, Fin 20] = Fin 70 \<and>
   calculate_risk_score PInf NaN [] = Fin 60"
  using calculate_risk_score_formula [of "fl 0.05" "Fin 0" "[]"]
    calculate_risk_score_formula [of "fl 0.05" "Fin 0" "[Fin 0]"]
    calculate_risk_score_formula [of "Fin 0" "Fin 0" "[fl 3.625]"]
    calculate_risk_score_formula [of "Fin (- 50)" "Fin (- 5000)" "[Fin 25, Fin 30, Fin 20]"]
    calculate_risk_score_formula [of PInf NaN "[]"]
  by (simp add: py_min_def np_round_def np_mean_def pairwise_sum_short fl_evals
      round_half_even_def)

text \<open>
  Claim C3 says that the risk score lies in \<open>[0, 100]\<close> for every list of risk factors
  with arbitrary entries. The source does not do that: with no variance and the single
  risk factor \<open>-10\<close> the mean is \<open>-10.0\<close>, the base score is \<open>-10.0 * 0.4 = -4.0\<close>, the
  cap at 100 leaves it as it is, and the function returns \<open>-4.0\<close>.
\<close>

theorem calculate_risk_score_negative_factor:
  "calculate_risk_score (Fin 0) (Fin 0) [Fin (- 10)] = Fin (- 4) \<and>
   \<not> fge (calculate_risk_score (Fin 0) (Fin 0) [Fin (- 10)]) (Fin 0)"
  by (simp add: calculate_risk_score_def Let_def py_min_def np_round_def np_mean_def
      pairwise_sum_short fcompare fl_evals round_half_even_def)

subsection \<open>Per-project orchestration\<close>

lemma fl_not_NaN: "fl x \<noteq> NaN"
  unfolding fl_def Let_def
  by (cases "(2::real) ^ 1024 \<le> round_to_ulp x"; cases "round_to_ulp x \<le> - (2 ^ 1024)")
    (simp_all only: if_True if_False double.distinct not_False_eq_True)

lemma fadd_Fin_not_NaN: "b \<noteq> NaN \<Longrightarrow> fadd (Fin x) b \<noteq> NaN"
  by (cases b) (simp_all add: fl_not_NaN)

lemma py_max_0_not_NaN: "py_max (Fin 0) b \<noteq> NaN"
  by (cases b) (simp_all add: py_max_def)

text \<open>The only exception of the health computation is the \<open>OverflowError\<close> of \<open>int\<close>.\<close>

lemma calculate_project_health_error:
  assumes "calculate_project_health spi cpi r = Inl e"
  shows "e = OverflowError"
proof -
  define score where "score = fadd (Fin (of_int
      (0 + (if fge spi (Fin 1) then 40 else if fge spi (fl 0.95) then 25
            else if fge spi (fl 0.85) then 10 else 0) +
       (if fge cpi (Fin 1) then 40 else if fge cpi (fl 0.90) then 25
        else if fge cpi (fl 0.75) then 10 else 0))))
      (py_max (Fin 0) (fmul (Fin 20) (fsub (Fin 1) (fdiv r (Fin 100)))))"
  have "score \<noteq> NaN"
    unfolding score_def by (rule fadd_Fin_not_NaN) (rule py_max_0_not_NaN)
  moreover have "py_int score = Inl e"
  proof -
    have tier: "(if b then (x::int) + u else if c then x + v else if d then x + w else x)
         = x + (if b then u else if c then v else if d then w else 0)" for b c d x u v w
      by simp
    have "calculate_project_health spi cpi r =
       (case py_int score of Inl e \<Rightarrow> Inl e
        | Inr p \<Rightarrow> Inr (if fge score (Fin 75) then ''Green''
                        else if fge score (Fin 50) then ''Yellow'' else ''Red'', p))"
      unfolding calculate_project_health_def SCHEDULE_THRESHOLD_YELLOW_def
        SCHEDULE_THRESHOLD_RED_def COST_THRESHOLD_YELLOW_def COST_THRESHOLD_RED_def
        Let_def tier score_def ..
    with assms show ?thesis
      by (simp split: sum.splits)
  qed
  ultimately show ?thesis
    by (cases score) simp_all
qed

text \<open>
  \<open>calculate_metrics\<close> with its local variables written out: the call either raises what
  the health computation raises, with the engine as it was, or returns the record and
  caches it.
\<close>

lemma calculate_metrics_unfold:
  "calculate_metrics now self pid kw =
     (case calculate_project_health
             (calculate_schedule_performance_index
                (kwargs_get (kw_earned_value kw) (Fin 0))
                (kwargs_get (kw_planned_value kw) (Fin 100)))
             (if fgt (kwargs_get (kw_actual_cost kw) (Fin 0)) (Fin 0)
              then calculate_cost_performance_index
                     (kwargs_get (kw_earned_value kw) (Fin 0))
                     (kwargs_get (kw_actual_cost kw) (Fin 0))
              else Fin 1)
             (calculate_risk_score
                (kwargs_get (kw_schedule_variance kw) (Fin 0))
                (kwargs_get (kw_cost_variance kw) (Fin 0))
                (kwargs_get (kw_risk_factors kw) [])) of
        Inl e \<Rightarrow> (Inl e, self)
      | Inr (status, percentage) \<Rightarrow>
          (Inr \<lparr>project_id = pid,
                schedule_performance_index =
                  calculate_schedule_performance_index
                    (kwargs_get (kw_earned_value kw) (Fin 0))
                    (kwargs_get (kw_planned_value kw) (Fin 100)),
                cost_performance_index =
                  (if fgt (kwargs_get (kw_actual_cost kw) (Fin 0)) (Fin 0)
                   then calculate_cost_performance_index
                          (kwargs_get (kw_earned_value kw) (Fin 0))
                          (kwargs_get (kw_actual_cost kw) (Fin 0))
                   else Fin 1),
                budget_variance = kwargs_get (kw_cost_variance kw) (Fin 0),
                schedule_variance = kwargs_get (kw_schedule_variance kw) (Fin 0),
                risk_score =
                  calculate_risk_score
                    (kwargs_get (kw_schedule_variance kw) (Fin 0))
                    (kwargs_get (kw_cost_variance kw) (Fin 0))
                    (kwargs_get (kw_risk_factors kw) []),
                team_utilization = kwargs_get (kw_team_utilization kw) (Fin 0),
                completion_percentage = kwargs_get (kw_completion_percentage kw) (Fin 0),
                health_status = status,
                calculated_at = now\<rparr>,
           self\<lparr>metrics_cache := (metrics_cache self)(pid \<mapsto>
                \<lparr>project_id = pid,
                 schedule_performance_index =
                   calculate_schedule_performance_index
                     (kwargs_get (kw_earned_value kw) (Fin 0))
                     (kwargs_get (kw_planned_value kw) (Fin 100)),
                 cost_performance_index =
                   (if fgt (kwargs_get (kw_actual_cost kw) (Fin 0)) (Fin 0)
                    then calculate_cost_performance_index
                           (kwargs_get (kw_earned_value kw) (Fin 0))
                           (kwargs_get (kw_actual_cost kw) (Fin 0))
                    else Fin 1),
                 budget_variance = kwargs_get (kw_cost_variance kw) (Fin 0),
                 schedule_variance = kwargs_get (kw_schedule_variance kw) (Fin 0),
                 risk_score =
                   calculate_risk_score
                     (kwargs_get (kw_schedule_variance kw) (Fin 0))
                     (kwargs_get (kw_cost_variance kw) (Fin 0))
                     (kwargs_get (kw_risk_factors kw) []),
                 team_utilization = kwargs_get (kw_team_utilization kw) (Fin 0),
                 completion_percentage = kwargs_get (kw_completion_percentage kw) (Fin 0),
                 health_status = status,
                 calculated_at = now\<rparr>)\<rparr>))"
  unfolding calculate_metrics_def Let_def ..

text \<open>
  The outcome of \<open>calculate_metrics\<close> does not depend on the clock, the engine or the
  project id: the call raises exactly when the health computation does.
\<close>

lemma calculate_metrics_raises:
  assumes "calculate_metrics now self pid kw = (Inl e, self')"
  shows "e = OverflowError" and "self' = self"
    and "\<not> finite_double (calculate_risk_score
                (kwargs_get (kw_schedule_variance kw) (Fin 0))
                (kwargs_get (kw_cost_variance kw) (Fin 0))
                (kwargs_get (kw_risk_factors kw) []))"
    and "calculate_metrics now' other pid' kw = (Inl e, other)"
proof -
  let ?spi = "calculate_schedule_performance_index
                (kwargs_get (kw_earned_value kw) (Fin 0))
                (kwargs_get (kw_planned_value kw) (Fin 100))"
  let ?cpi = "if fgt (kwargs_get (kw_actual_cost kw) (Fin 0)) (Fin 0)
              then calculate_cost_performance_index
                     (kwargs_get (kw_earned_value kw) (Fin 0))
                     (kwargs_get (kw_actual_cost kw) (Fin 0))
              else Fin 1"
  let ?risk = "calculate_risk_score
                (kwargs_get (kw_schedule_variance kw) (Fin 0))
                (kwargs_get (kw_cost_variance kw) (Fin 0))
                (kwargs_get (kw_risk_factors kw) [])"
  from assms have health: "calculate_project_health ?spi ?cpi ?risk = Inl e" and "self' = self"
    unfolding calculate_metrics_unfold
    by (simp_all split: sum.splits prod.splits split del: if_split)
  then show "self' = self"
    by simp
  from health show "e = OverflowError"
    by (rule calculate_project_health_error)
  from health show "\<not> finite_double ?risk"
    using calculate_project_health_returns [of ?risk ?spi ?cpi] by auto
  from health show "calculate_metrics now' other pid' kw = (Inl e, other)"
    unfolding calculate_metrics_unfold by (simp split del: if_split)
qed

text \<open>
  The sample inputs, computed one function at a time. The sample project is behind
  schedule, far over budget and at high risk, so it is Red; with an actual cost of zero
  its cost index is neutral and it is Yellow; a project without data takes every default
  and is Yellow; the late project has both indices at \<open>0.899\<close> and is Red.
\<close>

lemma sample_schedule_index:
  "calculate_schedule_performance_index (Fin 750) (Fin 800)
     = Fin (4224376450473525 / 4503599627370496)"
  by (simp add: calculate_schedule_performance_index_def fcompare fl_evals round_half_even_def)

lemma sample_cost_index:
  "calculate_cost_performance_index (Fin 750) (Fin 120000)
     = Fin (3458764513820541 / 576460752303423488)"
  by (simp add: calculate_cost_performance_index_def fcompare fl_evals round_half_even_def)

lemma sample_risk:
  "calculate_risk_score (Fin (- 50)) (Fin (- 5000)) [Fin 25, Fin 30, Fin 20] = Fin 70"
  by (simp add: calculate_risk_score_def Let_def py_min_def np_round_def np_mean_def
      pairwise_sum_short fl_evals round_half_even_def)

lemmas health_evals = calculate_project_health_def Let_def SCHEDULE_THRESHOLD_YELLOW_def
  SCHEDULE_THRESHOLD_RED_def COST_THRESHOLD_YELLOW_def COST_THRESHOLD_RED_def fcompare
  fsub_def py_max_def fl_evals round_half_even_def

lemma sample_health:
  "calculate_project_health (Fin (4224376450473525 / 4503599627370496))
     (Fin (3458764513820541 / 576460752303423488)) (Fin 70) = Inr (''Red'', 16)"
  by (simp add: health_evals)

lemma sample_health_no_cost:
  "calculate_project_health (Fin (4224376450473525 / 4503599627370496)) (Fin 1) (Fin 70)
     = Inr (''Yellow'', 56)"
  by (simp add: health_evals)

lemma default_schedule_index: "calculate_schedule_performance_index (Fin 0) (Fin 100) = Fin 0"
  by (simp add: calculate_schedule_performance_index_def fcompare fl_evals round_half_even_def)

lemma default_risk: "calculate_risk_score (Fin 0) (Fin 0) [] = Fin 0"
  by (simp add: calculate_risk_score_def Let_def py_min_def fl_evals round_half_even_def)

lemma default_health: "calculate_project_health (Fin 0) (Fin 1) (Fin 0) = Inr (''Yellow'', 60)"
  by (simp add: health_evals)

lemma late_index:
  "calculate_schedule_performance_index (Fin 1799) (Fin 2000)
     = Fin (1012184016251519 / 1125899906842624)"
  "calculate_cost_performance_index (Fin 1799) (Fin 2000)
     = Fin (1012184016251519 / 1125899906842624)"
  by (simp_all add: calculate_schedule_performance_index_def
      calculate_cost_performance_index_def fcompare fl_evals round_half_even_def)

lemma late_health:
  "calculate_project_health (Fin (1012184016251519 / 1125899906842624))
     (Fin (1012184016251519 / 1125899906842624)) (Fin 0) = Inr (''Red'', 40)"
  by (simp add: health_evals)

lemma calculate_metrics_sample:
  "calculate_metrics t e pid (sample_kwargs\<lparr>kw_team_utilization := Some u\<rparr>) =
     (let m = \<lparr>project_id = pid,
                schedule_performance_index = Fin (4224376450473525 / 4503599627370496),
                cost_performance_index = Fin (3458764513820541 / 576460752303423488),
                budget_variance = Fin (- 5000), schedule_variance = Fin (- 50),
                risk_score = Fin 70, team_utilization = u,
                completion_percentage = Fin 93.75, health_status = ''Red'',
                calculated_at = t\<rparr>
      in (Inr m, e\<lparr>metrics_cache := (metrics_cache e)(pid \<mapsto> m)\<rparr>))"
  by (simp add: calculate_metrics_unfold Let_def kwargs_get_def sample_kwargs_def fcompare
      sample_schedule_index sample_cost_index sample_risk sample_health)

lemma calculate_metrics_sample_no_cost:
  "calculate_metrics t e pid (sample_kwargs\<lparr>kw_actual_cost := Some (Fin 0)\<rparr>) =
     (let m = \<lparr>project_id = pid,
                schedule_performance_index = Fin (4224376450473525 / 4503599627370496),
                cost_performance_index = Fin 1,
                budget_variance = Fin (- 5000), schedule_variance = Fin (- 50),
                risk_score = Fin 70, team_utilization = fl 0.85,
                completion_percentage = Fin 93.75, health_status = ''Yellow'',
                calculated_at = t\<rparr>
      in (Inr m, e\<lparr>metrics_cache := (metrics_cache e)(pid \<mapsto> m)\<rparr>))"
  by (simp add: calculate_metrics_unfold Let_def kwargs_get_def sample_kwargs_def fcompare
      sample_schedule_index sample_risk sample_health_no_cost)

lemma calculate_metrics_no_data:
  "calculate_metrics t e pid (empty_kwargs\<lparr>kw_team_utilization := u\<rparr>) =
     (let m = \<lparr>project_id = pid, schedule_performance_index = Fin 0,
                cost_performance_index = Fin 1, budget_variance = Fin 0,
                schedule_variance = Fin 0, risk_score = Fin 0,
                team_utilization = kwargs_get u (Fin 0), completion_percentage = Fin 0,
                health_status = ''Yellow'', calculated_at = t\<rparr>
      in (Inr m, e\<lparr>metrics_cache := (metrics_cache e)(pid \<mapsto> m)\<rparr>))"
  by (simp add: calculate_metrics_unfold Let_def kwargs_get_def empty_kwargs_def fcompare
      default_schedule_index default_risk default_health)

lemma calculate_metrics_late:
  "calculate_metrics t e pid late_kwargs =
     (let m = \<lparr>project_id = pid,
                schedule_performance_index = Fin (1012184016251519 / 1125899906842624),
                cost_performance_index = Fin (1012184016251519 / 1125899906842624),
                budget_variance = Fin 0, schedule_variance = Fin 0, risk_score = Fin 0,
                team_utilization = fl 0.1, completion_percentage = Fin 0,
                health_status = ''Red'', calculated_at = t\<rparr>
      in (Inr m, e\<lparr>metrics_cache := (metrics_cache e)(pid \<mapsto> m)\<rparr>))"
  by (simp add: calculate_metrics_unfold Let_def kwargs_get_def late_kwargs_def empty_kwargs_def
      fcompare late_index default_risk late_health)

lemma calculate_metrics_sample_kwargs:
  "calculate_metrics t e pid sample_kwargs =
     (let m = \<lparr>project_id = pid,
                schedule_performance_index = Fin (4224376450473525 / 4503599627370496),
                cost_performance_index = Fin (3458764513820541 / 576460752303423488),
                budget_variance = Fin (- 5000), schedule_variance = Fin (- 50),
                risk_score = Fin 70, team_utilization = fl 0.85,
                completion_percentage = Fin 93.75, health_status = ''Red'',
                calculated_at = t\<rparr>
      in (Inr m, e\<lparr>metrics_cache := (metrics_cache e)(pid \<mapsto> m)\<rparr>))"
proof -
  have "sample_kwargs = sample_kwargs\<lparr>kw_team_utilization := Some (fl 0.85)\<rparr>"
    by (simp add: sample_kwargs_def)
  then show ?thesis
    using calculate_metrics_sample [of t e pid "fl 0.85"] by simp
qed

lemma calculate_metrics_empty_kwargs:
  "calculate_metrics t e pid empty_kwargs =
     (let m = \<lparr>project_id = pid, schedule_performance_index = Fin 0,
                cost_performance_index = Fin 1, budget_variance = Fin 0,
                schedule_variance = Fin 0, risk_score = Fin 0,
                team_utilization = Fin 0, completion_percentage = Fin 0,
                health_status = ''Yellow'', calculated_at = t\<rparr>
      in (Inr m, e\<lparr>metrics_cache := (metrics_cache e)(pid \<mapsto> m)\<rparr>))"
proof -
  have "empty_kwargs = empty_kwargs\<lparr>kw_team_utilization := None\<rparr>"
    by (simp add: empty_kwargs_def)
  then show ?thesis
    using calculate_metrics_no_data [of t e pid None] by (simp add: kwargs_get_def)
qed

text \<open>
  A call that raises: the risk factors \<open>- 2 ^ 1023\<close> and \<open>- 2 ^ 1023\<close> have the float
  sum \<open>-inf\<close>, so the mean, the base score and the risk score are \<open>-inf\<close>, the risk
  adjustment and the health score are \<open>inf\<close>, and \<open>int\<close> raises \<open>OverflowError\<close>.
\<close>

lemma overflow_mean: "np_mean [Fin (- (2 ^ 1023)), Fin (- (2 ^ 1023))] = NInf"
proof -
  define h :: real where "h = 2 ^ 1023"
  have h: "h \<noteq> 0" "- h \<noteq> 0"
    unfolding h_def by simp_all
  have "- h + - h = - (2 * h)"
    by simp
  also have "2 * h = 2 ^ 1024"
    unfolding h_def by simp
  finally have sum: "- h + - h = - (2 ^ 1024)" .
  have "fadd (Fin (- h)) (Fin (- h)) = fl (- h + - h)"
    using h(2) by (simp only: fadd.simps if_False)
  then have s: "fadd (Fin (- h)) (Fin (- h)) = NInf"
    unfolding sum fl_neg_overflow .
  have "pairwise_sum [Fin (- h), Fin (- h)] = foldl fadd (Fin 0) [Fin (- h), Fin (- h)]"
    by (rule pairwise_sum_short) simp
  also have "\<dots> = fadd (fadd (Fin 0) (Fin (- h))) (Fin (- h))"
    by (simp only: foldl.simps)
  also have "\<dots> = NInf"
    unfolding fadd_0_left s ..
  finally have "np_mean [Fin (- h), Fin (- h)] = fdiv (fadd (Fin 0) NInf) (Fin (real (length [Fin (- h), Fin (- h)])))"
    unfolding np_mean_def by (simp only:)
  also have "\<dots> = NInf"
    by simp
  finally show ?thesis
    unfolding h_def .
qed

lemma overflow_risk:
  "calculate_risk_score (Fin 0) (Fin 0) [Fin (- (2 ^ 1023)), Fin (- (2 ^ 1023))] = NInf"
proof -
  have "[Fin (- (2 ^ 1023)), Fin (- (2 ^ 1023))] \<noteq> ([] :: double list)"
    by (simp only: list.distinct not_False_eq_True)
  then show ?thesis
    unfolding calculate_risk_score_def Let_def overflow_mean
    by (simp only: if_True)
      (simp add: py_min_def np_round_def fl_evals round_half_even_def)
qed

lemma overflow_health: "calculate_project_health spi cpi NInf = Inl OverflowError"
  by (simp add: calculate_project_health_def Let_def fsub_def py_max_def)

lemma calculate_metrics_overflow:
  "calculate_metrics t e pid overflow_kwargs = (Inl OverflowError, e)"
  unfolding calculate_metrics_unfold
  by (simp add: overflow_kwargs_def empty_kwargs_def kwargs_get_def overflow_risk overflow_health
      del: power_numeral)

text \<open>
  Claim C4. Called directly, \<open>calculate_cost_performance_index\<close> returns \<open>0.0\<close> for an
  actual cost of zero and \<open>round(earned_value / actual_cost, 3)\<close> otherwise (the float
  quotient, rounded by Python's \<open>round\<close>). Inside \<open>calculate_metrics\<close> the calculator is
  used only when the actual cost (default \<open>0\<close>) is strictly positive, and the index is
  \<open>1.0\<close> otherwise; so a project computed with an actual cost of zero has the index
  \<open>1.0\<close>, where the direct call gives \<open>0.0\<close>. A call of \<open>calculate_metrics\<close> returns no
  record only when its risk score is not finite.
\<close>

theorem cost_performance_index_asymmetry:
  "calculate_cost_performance_index ev ac =
     (if feq ac (Fin 0) then Fin 0 else py_round (fdiv ev ac) 3) \<and>
   (case calculate_metrics now self pid kw of
      (Inr m, self') \<Rightarrow>
        cost_performance_index m =
          (let ev' = (case kw_earned_value kw of None \<Rightarrow> Fin 0 | Some v \<Rightarrow> v);
               ac' = (case kw_actual_cost kw of None \<Rightarrow> Fin 0 | Some v \<Rightarrow> v)
           in if fgt ac' (Fin 0) then calculate_cost_performance_index ev' ac' else Fin 1)
    | (Inl e, self') \<Rightarrow>
        \<not> finite_double (calculate_risk_score
             (kwargs_get (kw_schedule_variance kw) (Fin 0))
             (kwargs_get (kw_cost_variance kw) (Fin 0))
             (kwargs_get (kw_risk_factors kw) []))) \<and>
   (case calculate_metrics now self pid (kw\<lparr>kw_actual_cost := Some (Fin 0)\<rparr>) of
      (Inr m, self') \<Rightarrow> cost_performance_index m = Fin 1
    | (Inl e, self') \<Rightarrow>
        \<not> finite_double (calculate_risk_score
             (kwargs_get (kw_schedule_variance kw) (Fin 0))
             (kwargs_get (kw_cost_variance kw) (Fin 0))
             (kwargs_get (kw_risk_factors kw) []))) \<and>
   calculate_cost_performance_index
     (case kw_earned_value kw of None \<Rightarrow> Fin 0 | Some v \<Rightarrow> v) (Fin 0) = Fin 0"
proof (intro conjI)
  show "calculate_cost_performance_index ev ac =
     (if feq ac (Fin 0) then Fin 0 else py_round (fdiv ev ac) 3)"
    by (simp add: calculate_cost_performance_index_def)
  show "calculate_cost_performance_index
     (case kw_earned_value kw of None \<Rightarrow> Fin 0 | Some v \<Rightarrow> v) (Fin 0) = Fin 0"
    by (simp add: calculate_cost_performance_index_def fcompare)
  show "case calculate_metrics now self pid kw of
      (Inr m, self') \<Rightarrow>
        cost_performance_index m =
          (let ev' = (case kw_earned_value kw of None \<Rightarrow> Fin 0 | Some v \<Rightarrow> v);
               ac' = (case kw_actual_cost kw of None \<Rightarrow> Fin 0 | Some v \<Rightarrow> v)
           in if fgt ac' (Fin 0) then calculate_cost_performance_index ev' ac' else Fin 1)
    | (Inl e, self') \<Rightarrow>
        \<not> finite_double (calculate_risk_score
             (kwargs_get (kw_schedule_variance kw) (Fin 0))
             (kwargs_get (kw_cost_variance kw) (Fin 0))
             (kwargs_get (kw_risk_factors kw) []))"
  proof (cases "calculate_metrics now self pid kw")
    case (Pair res self')
    show ?thesis
    proof (cases res)
      case (Inl e)
      with Pair have "calculate_metrics now self pid kw = (Inl e, self')"
        by simp
      from calculate_metrics_raises(3) [OF this] Pair Inl show ?thesis
        by simp
    next
      case (Inr m)
      with Pair have "cost_performance_index m =
          (if fgt (kwargs_get (kw_actual_cost kw) (Fin 0)) (Fin 0)
           then calculate_cost_performance_index
                  (kwargs_get (kw_earned_value kw) (Fin 0))
                  (kwargs_get (kw_actual_cost kw) (Fin 0))
           else Fin 1)"
        unfolding calculate_metrics_unfold
        by (auto split: sum.splits prod.splits split del: if_split)
      with Pair Inr show ?thesis
        by (simp add: Let_def kwargs_get_def)
    qed
  qed
  show "case calculate_metrics now self pid (kw\<lparr>kw_actual_cost := Some (Fin 0)\<rparr>) of
      (Inr m, self') \<Rightarrow> cost_performance_index m = Fin 1
    | (Inl e, self') \<Rightarrow>
        \<not> finite_double (calculate_risk_score
             (kwargs_get (kw_schedule_variance kw) (Fin 0))
             (kwargs_get (kw_cost_variance kw) (Fin 0))
             (kwargs_get (kw_risk_factors kw) []))"
  proof (cases "calculate_metrics now self pid (kw\<lparr>kw_actual_cost := Some (Fin 0)\<rparr>)")
    case (Pair res self')
    show ?thesis
    proof (cases res)
      case (Inl e)
      with Pair have
        "calculate_metrics now self pid (kw\<lparr>kw_actual_cost := Some (Fin 0)\<rparr>) = (Inl e, self')"
        by simp
      from calculate_metrics_raises(3) [OF this] Pair Inl show ?thesis
        by simp
    next
      case (Inr m)
      with Pair have "cost_performance_index m = Fin 1"
        unfolding calculate_metrics_unfold
        by (auto simp add: kwargs_get_def fcompare split: sum.splits prod.splits)
      with Pair Inr show ?thesis
        by simp
    qed
  qed
qed

text \<open>
  Evaluations. The direct call at \<open>(1, 400)\<close> gives \<open>0.003\<close> (the float quotient is just
  above \<open>0.0025\<close>), and \<open>0.0\<close> at an actual cost of zero. The sample project has the index
  \<open>0.006\<close>; with its actual cost set to zero it has the index \<open>1.0\<close>.
\<close>

theorem cost_performance_index_asymmetry_witness:
  "calculate_cost_performance_index (Fin 1) (Fin 400) = fl 0.003 \<and>
   calculate_cost_performance_index (Fin 750) (Fin 0) = Fin 0 \<and>
   calculate_cost_performance_index (Fin 750) (Fin 120000) = fl 0.006 \<and>
   (\<exists>m self'. calculate_metrics 7 fresh_engine ''PROJ-001'' sample_kwargs = (Inr m, self') \<and>
      cost_performance_index m = fl 0.006) \<and>
   (\<exists>m self'. calculate_metrics 7 fresh_engine ''PROJ-001''
                 (sample_kwargs\<lparr>kw_actual_cost := Some (Fin 0)\<rparr>) = (Inr m, self') \<and>
      cost_performance_index m = Fin 1)"
  using cost_performance_index_asymmetry [where ev = "Fin 1" and ac = "Fin 400" and now = 7
      and self = fresh_engine and pid = "''PROJ-001''" and kw = sample_kwargs]
    cost_performance_index_asymmetry [where ev = "Fin 750" and ac = "Fin 0" and now = 7
      and self = fresh_engine and pid = "''PROJ-001''" and kw = sample_kwargs]
    cost_performance_index_asymmetry [where ev = "Fin 750" and ac = "Fin 120000" and now = 7
      and self = fresh_engine and pid = "''PROJ-001''" and kw = sample_kwargs]
  by (simp add: calculate_metrics_sample_kwargs calculate_metrics_sample_no_cost Let_def
      fcompare fl_evals round_half_even_def)

text \<open>
  Claim C6. In every call of \<open>calculate_metrics\<close> an absent field is replaced by its
  default, and a missing field is never an error: the outcome of the call (the record and
  the engine it returns) is that of the same call with the defaults supplied explicitly.
  For a call with no field at all these are \<open>earned_value = 0\<close>, \<open>planned_value = 100\<close>,
  \<open>actual_cost = 0\<close>, \<open>schedule_variance = 0\<close>, \<open>cost_variance = 0\<close>,
  \<open>completion_percentage = 0\<close>, \<open>team_utilization = 0\<close> and \<open>risk_factors = []\<close>, and the
  call returns a record.
\<close>

theorem calculate_metrics_defaults:
  "calculate_metrics now self pid kw = calculate_metrics now self pid (spec_supply_defaults kw) \<and>
   spec_supply_defaults empty_kwargs =
     \<lparr>kw_earned_value = Some (Fin 0), kw_planned_value = Some (Fin 100),
      kw_actual_cost = Some (Fin 0),
      kw_schedule_variance = Some (Fin 0), kw_cost_variance = Some (Fin 0),
      kw_completion_percentage = Some (Fin 0), kw_team_utilization = Some (Fin 0),
      kw_risk_factors = Some []\<rparr> \<and>
   (\<exists>m. calculate_metrics now self pid empty_kwargs =
          (Inr m, self\<lparr>metrics_cache := (metrics_cache self)(pid \<mapsto> m)\<rparr>))"
  using calculate_metrics_empty_kwargs [of now self pid]
  by (simp add: calculate_metrics_def spec_supply_defaults_def kwargs_get_def Let_def)
    (simp add: empty_kwargs_def)

theorem calculate_metrics_defaults_witness:
  "calculate_metrics 7 fresh_engine ''PROJ-002'' empty_kwargs =
     calculate_metrics 7 fresh_engine ''PROJ-002''
       \<lparr>kw_earned_value = Some (Fin 0), kw_planned_value = Some (Fin 100),
        kw_actual_cost = Some (Fin 0),
        kw_schedule_variance = Some (Fin 0), kw_cost_variance = Some (Fin 0),
        kw_completion_percentage = Some (Fin 0), kw_team_utilization = Some (Fin 0),
        kw_risk_factors = Some []\<rparr>"
  using calculate_metrics_defaults [of 7 fresh_engine "''PROJ-002''" empty_kwargs]
  by simp

text \<open>
  Claim C10. The \<open>budget_variance\<close> of the record that \<open>calculate_metrics\<close> returns, and
  caches, is the \<open>cost_variance\<close> input (default 0), and its \<open>schedule_variance\<close> is the
  \<open>schedule_variance\<close> input (default 0), unchanged. The call returns no record only when
  its risk score is not finite: then it raises \<open>OverflowError\<close> and the engine is as it
  was.
\<close>

theorem calculate_metrics_variances:
  "(case calculate_metrics now self pid kw of
      (Inr m, self') \<Rightarrow>
        budget_variance m = (case kw_cost_variance kw of None \<Rightarrow> Fin 0 | Some v \<Rightarrow> v) \<and>
        schedule_variance m = (case kw_schedule_variance kw of None \<Rightarrow> Fin 0 | Some v \<Rightarrow> v) \<and>
        metrics_cache self' pid = Some m
    | (Inl e, self') \<Rightarrow>
        e = OverflowError \<and> self' = self \<and>
        \<not> finite_double (calculate_risk_score
             (kwargs_get (kw_schedule_variance kw) (Fin 0))
             (kwargs_get (kw_cost_variance kw) (Fin 0))
             (kwargs_get (kw_risk_factors kw) [])))"
proof (cases "calculate_metrics now self pid kw")
  case (Pair res self')
  show ?thesis
  proof (cases res)
    case (Inl e)
    with Pair have "calculate_metrics now self pid kw = (Inl e, self')"
      by simp
    from calculate_metrics_raises(1,2,3) [OF this] Pair Inl show ?thesis
      by simp
  next
    case (Inr m)
    with Pair have
      "budget_variance m = kwargs_get (kw_cost_variance kw) (Fin 0) \<and>
       schedule_variance m = kwargs_get (kw_schedule_variance kw) (Fin 0) \<and>
       metrics_cache self' pid = Some m"
      unfolding calculate_metrics_unfold
      by (auto split: sum.splits prod.splits split del: if_split)
    with Pair Inr show ?thesis
      by (simp add: kwargs_get_def)
  qed
qed

text \<open>
  Evaluations: the sample project, a project without data, and a project whose risk
  factors overflow, for which the call raises and the cache stays empty.
\<close>

theorem calculate_metrics_variances_witness:
  "(\<exists>m self'. calculate_metrics 7 fresh_engine ''PROJ-001'' sample_kwargs = (Inr m, self') \<and>
      budget_variance m = Fin (- 5000) \<and> schedule_variance m = Fin (- 50) \<and>
      metrics_cache self' ''PROJ-001'' = Some m) \<and>
   (\<exists>m self'. calculate_metrics 7 fresh_engine ''PROJ-002'' empty_kwargs = (Inr m, self') \<and>
      budget_variance m = Fin 0 \<and> schedule_variance m = Fin 0 \<and>
      metrics_cache self' ''PROJ-002'' = Some m) \<and>
   calculate_metrics 7 fresh_engine ''PROJ-003'' overflow_kwargs =
     (Inl OverflowError, fresh_engine)"
  using calculate_metrics_variances [where now = 7 and self = fresh_engine
      and pid = "''PROJ-001''" and kw = sample_kwargs]
    calculate_metrics_variances [where now = 7 and self = fresh_engine
      and pid = "''PROJ-002''" and kw = empty_kwargs]
    calculate_metrics_variances [where now = 7 and self = fresh_engine
      and pid = "''PROJ-003''" and kw = overflow_kwargs]
  by (simp add: calculate_metrics_sample_kwargs calculate_metrics_empty_kwargs
      calculate_metrics_overflow Let_def)

text \<open>
  Claim C9. Two calls of \<open>calculate_metrics\<close> with the same project id and the same
  fields, at the clock readings \<open>t1\<close> and \<open>t2\<close>, return records that agree on every
  field but \<open>calculated_at\<close> (which holds the reading of its call). After the first call
  the cache holds the first record under the id; after the second it is the cache from
  before the two calls with the id mapped to the second record, which
  \<open>get_project_metrics\<close> returns. When the first call returns a record, so does the
  second. The first call returns no record only when the risk score of the fields is not
  finite: then both calls raise \<open>OverflowError\<close> and the engine is as it was.
\<close>

theorem calculate_metrics_twice:
  "(case calculate_metrics t1 self pid kw of
      (Inr m1, self1) \<Rightarrow>
        (case calculate_metrics t2 self1 pid kw of
           (Inr m2, self2) \<Rightarrow>
             m2 = m1\<lparr>calculated_at := calculated_at m2\<rparr> \<and>
             calculated_at m1 = t1 \<and> calculated_at m2 = t2 \<and>
             metrics_cache self1 pid = Some m1 \<and>
             metrics_cache self2 = (metrics_cache self)(pid \<mapsto> m2) \<and>
             get_project_metrics self2 pid = Some m2
         | (Inl e, self2) \<Rightarrow> False)
    | (Inl e, self1) \<Rightarrow>
        e = OverflowError \<and> self1 = self \<and>
        calculate_metrics t2 self1 pid kw = (Inl e, self) \<and>
        \<not> finite_double (calculate_risk_score
             (kwargs_get (kw_schedule_variance kw) (Fin 0))
             (kwargs_get (kw_cost_variance kw) (Fin 0))
             (kwargs_get (kw_risk_factors kw) [])))"
proof (cases "calculate_metrics t1 self pid kw")
  case (Pair res self1)
  show ?thesis
  proof (cases res)
    case (Inl e)
    with Pair have call: "calculate_metrics t1 self pid kw = (Inl e, self1)"
      by simp
    from calculate_metrics_raises(1,2,3) [OF call]
      calculate_metrics_raises(4) [OF call, of t2 self pid] Pair Inl
    show ?thesis
      by simp
  next
    case (Inr m1)
    with Pair show ?thesis
      unfolding calculate_metrics_unfold
      by (auto simp add: get_project_metrics_def split: sum.splits prod.splits
          split del: if_split)
  qed
qed

subsection \<open>Portfolio aggregation\<close>

text \<open>
  Claim C8. For an empty sequence of projects \<open>calculate_portfolio_metrics\<close> returns an
  empty mapping, not an error, and the engine (so its cache) is the one it was called on.
\<close>

theorem calculate_portfolio_metrics_empty:
  "calculate_portfolio_metrics clock self [] = (Inr Map.empty, self)"
  by (simp add: calculate_portfolio_metrics_def)

lemma spec_run_pipeline_length:
  "spec_run_pipeline clock i self ps = Some (ms, self') \<Longrightarrow> length ms = length ps"
  by (induction ps arbitrary: i self ms self')
    (auto split: prod.splits sum.splits option.splits)

text \<open>
  The loop, started in any state whose summary holds the integer \<open>c\<close> under
  \<open>at_risk_count\<close>, ends without an exception when every project carries an id and the
  sequential run returns. It leaves the engine of the sequential run, has appended the
  three per-project values in input order, and has added the number of Red projects to
  \<open>c\<close>.
\<close>

lemma portfolio_loop_run:
  assumes "\<forall>p \<in> set ps. proj_id p \<noteq> None"
    and "portfolio_metrics s ''at_risk_count'' = Some (PyInt c)"
    and "spec_run_pipeline clock i (engine s) ps = Some (ms, self')"
  shows "portfolio_loop clock i ps s =
          (None,
           \<lparr>engine = self',
            portfolio_metrics = (portfolio_metrics s)(''at_risk_count'' \<mapsto>
                PyInt (c + int (length (filter (\<lambda>m. health_status m = ''Red'') ms)))),
            health_scores = health_scores s @ map risk_score ms,
            utilizations = utilizations s @ map team_utilization ms,
            schedule_indices = schedule_indices s @ map schedule_performance_index ms\<rparr>)"
  using assms
proof (induction ps arbitrary: i s c ms self')
  case Nil
  have "(portfolio_metrics s)(''at_risk_count'' \<mapsto> PyInt c) = portfolio_metrics s"
    using Nil.prems(2) by (rule map_upd_triv)
  with Nil.prems(3) show ?case
    by auto
next
  case (Cons p ps)
  from Cons.prems obtain pid where pid: "proj_id p = Some pid"
    by auto
  from Cons.prems have rest: "\<forall>p \<in> set ps. proj_id p \<noteq> None"
    by simp
  define kw where "kw = (case proj_data p of None \<Rightarrow> empty_kwargs | Some d \<Rightarrow> d)"
  from Cons.prems(3) pid obtain m self1 ms' self2
    where cm: "calculate_metrics (clock i) (engine s) pid kw = (Inr m, self1)"
      and sp: "spec_run_pipeline clock (Suc i) self1 ps = Some (ms', self2)"
      and whole: "ms = m # ms'" "self' = self2"
    by (auto simp add: kw_def split: prod.splits sum.splits option.splits)
  define s1 where "s1 = s\<lparr>engine := self1,
      health_scores := health_scores s @ [risk_score m],
      utilizations := utilizations s @ [team_utilization m],
      schedule_indices := schedule_indices s @ [schedule_performance_index m]\<rparr>"
  have s1: "engine s1 = self1" "portfolio_metrics s1 = portfolio_metrics s"
    "health_scores s1 = health_scores s @ [risk_score m]"
    "utilizations s1 = utilizations s @ [team_utilization m]"
    "schedule_indices s1 = schedule_indices s @ [schedule_performance_index m]"
    by (simp_all add: s1_def)
  show ?case
  proof (cases "health_status m = ''Red''")
    case True
    define s2 where "s2 = s1\<lparr>portfolio_metrics :=
        (portfolio_metrics s1)(''at_risk_count'' \<mapsto> PyInt (c + 1))\<rparr>"
    have s2: "engine s2 = engine s1"
      "portfolio_metrics s2 = (portfolio_metrics s1)(''at_risk_count'' \<mapsto> PyInt (c + 1))"
      "health_scores s2 = health_scores s1" "utilizations s2 = utilizations s1"
      "schedule_indices s2 = schedule_indices s1"
      by (simp_all add: s2_def)
    have step: "portfolio_loop clock i (p # ps) s = portfolio_loop clock (Suc i) ps s2"
      using True Cons.prems(2) pid cm
      by (simp add: kwargs_get_def kw_def s1_def s2_def)
    have count: "portfolio_metrics s2 ''at_risk_count'' = Some (PyInt (c + 1))"
      by (simp add: s2)
    have "spec_run_pipeline clock (Suc i) (engine s2) ps = Some (ms', self2)"
      by (simp add: s2(1) s1(1) sp)
    from Cons.IH [OF rest count this] show ?thesis
      unfolding step whole using True by (simp add: s2 s1 fun_eq_iff)
  next
    case False
    have step: "portfolio_loop clock i (p # ps) s = portfolio_loop clock (Suc i) ps s1"
      using False pid cm
      by (simp add: kwargs_get_def kw_def s1_def)
    have count: "portfolio_metrics s1 ''at_risk_count'' = Some (PyInt c)"
      using Cons.prems(2) by (simp add: s1)
    have "spec_run_pipeline clock (Suc i) (engine s1) ps = Some (ms', self2)"
      by (simp add: s1(1) sp)
    from Cons.IH [OF rest count this] show ?thesis
      unfolding step whole using False by (simp add: s1 fun_eq_iff)
  qed
qed

text \<open>
  When a computation of the sequential run raises, the loop leaves with that exception,
  which is the \<open>OverflowError\<close> of the health computation.
\<close>

lemma portfolio_loop_raises:
  assumes "\<forall>p \<in> set ps. proj_id p \<noteq> None"
    and "portfolio_metrics s ''at_risk_count'' = Some (PyInt c)"
    and "spec_run_pipeline clock i (engine s) ps = None"
  shows "fst (portfolio_loop clock i ps s) = Some OverflowError"
  using assms
proof (induction ps arbitrary: i s c)
  case Nil
  then show ?case
    by simp
next
  case (Cons p ps)
  from Cons.prems obtain pid where pid: "proj_id p = Some pid"
    by auto
  from Cons.prems have rest: "\<forall>p \<in> set ps. proj_id p \<noteq> None"
    by simp
  define kw where "kw = (case proj_data p of None \<Rightarrow> empty_kwargs | Some d \<Rightarrow> d)"
  obtain res self1 where cm: "calculate_metrics (clock i) (engine s) pid kw = (res, self1)"
    by (cases "calculate_metrics (clock i) (engine s) pid kw")
  show ?case
  proof (cases res)
    case (Inl e)
    with cm have "e = OverflowError"
      using calculate_metrics_raises(1) by blast
    with Inl cm pid show ?thesis
      by (simp add: kwargs_get_def kw_def)
  next
    case (Inr m)
    with Cons.prems(3) pid cm
    have sp: "spec_run_pipeline clock (Suc i) self1 ps = None"
      by (auto simp add: kw_def split: prod.splits sum.splits option.splits)
    define s1 where "s1 = s\<lparr>engine := self1,
        health_scores := health_scores s @ [risk_score m],
        utilizations := utilizations s @ [team_utilization m],
        schedule_indices := schedule_indices s @ [schedule_performance_index m]\<rparr>"
    have s1: "engine s1 = self1" "portfolio_metrics s1 = portfolio_metrics s"
      by (simp_all add: s1_def)
    show ?thesis
    proof (cases "health_status m = ''Red''")
      case True
      define s2 where "s2 = s1\<lparr>portfolio_metrics :=
          (portfolio_metrics s1)(''at_risk_count'' \<mapsto> PyInt (c + 1))\<rparr>"
      have step: "portfolio_loop clock i (p # ps) s = portfolio_loop clock (Suc i) ps s2"
        using True Cons.prems(2) pid cm Inr
        by (simp add: kwargs_get_def kw_def s1_def s2_def)
      have count: "portfolio_metrics s2 ''at_risk_count'' = Some (PyInt (c + 1))"
        by (simp add: s2_def)
      have "spec_run_pipeline clock (Suc i) (engine s2) ps = None"
        by (simp add: s2_def s1(1) sp)
      from Cons.IH [OF rest count this] show ?thesis
        unfolding step .
    next
      case False
      have step: "portfolio_loop clock i (p # ps) s = portfolio_loop clock (Suc i) ps s1"
        using False pid cm Inr
        by (simp add: kwargs_get_def kw_def s1_def)
      have count: "portfolio_metrics s1 ''at_risk_count'' = Some (PyInt c)"
        using Cons.prems(2) by (simp add: s1)
      have "spec_run_pipeline clock (Suc i) (engine s1) ps = None"
        by (simp add: s1(1) sp)
      from Cons.IH [OF rest count this] show ?thesis
        unfolding step .
    qed
  qed
qed

text \<open>
  Claim C7. For every non-empty sequence of projects, each carrying an id,
  \<open>calculate_portfolio_metrics\<close> runs the per-project pipeline sequentially in input
  order. When that run returns the records \<open>ms\<close>, one per project, the function returns a
  summary and leaves the engine of the run: \<open>total_projects\<close> is the number of projects,
  \<open>avg_health_score\<close> is the mean (\<open>np.mean\<close>) of the \<open>risk_score\<close> values,
  \<open>at_risk_count\<close> is the number of records whose \<open>health_status\<close> is Red,
  \<open>avg_budget_utilization\<close> is the mean of the \<open>team_utilization\<close> values and
  \<open>avg_schedule_health\<close> is the mean of the \<open>schedule_performance_index\<close> values; the
  summary has no other key. When a computation of the run raises (its risk score is not
  finite), the function raises that \<open>OverflowError\<close>.
\<close>

theorem calculate_portfolio_metrics_summary:
  assumes "projects \<noteq> []"
    and "\<forall>p \<in> set projects. proj_id p \<noteq> None"
  shows "(case spec_run_pipeline clock 0 self projects of
            Some (ms, self') \<Rightarrow>
              length ms = length projects \<and>
              calculate_portfolio_metrics clock self projects =
                (Inr [''total_projects'' \<mapsto> PyInt (int (length projects)),
                      ''avg_health_score'' \<mapsto> PyFloat (np_mean (map risk_score ms)),
                      ''at_risk_count'' \<mapsto>
                         PyInt (int (length (filter (\<lambda>m. health_status m = ''Red'') ms))),
                      ''avg_budget_utilization'' \<mapsto>
                         PyFloat (np_mean (map team_utilization ms)),
                      ''avg_schedule_health'' \<mapsto>
                         PyFloat (np_mean (map schedule_performance_index ms))],
                 self')
          | None \<Rightarrow>
              fst (calculate_portfolio_metrics clock self projects) = Inl OverflowError)"
proof -
  define s0 where "s0 =
     \<lparr>engine = self,
      portfolio_metrics =
        [''total_projects'' \<mapsto> PyInt (int (length projects)),
         ''avg_health_score'' \<mapsto> PyInt 0,
         ''at_risk_count'' \<mapsto> PyInt 0,
         ''avg_budget_utilization'' \<mapsto> PyInt 0,
         ''avg_schedule_health'' \<mapsto> PyInt 0],
      health_scores = [], utilizations = [], schedule_indices = []\<rparr>"
  have count: "portfolio_metrics s0 ''at_risk_count'' = Some (PyInt 0)"
    by (simp add: s0_def)
  show ?thesis
  proof (cases "spec_run_pipeline clock 0 self projects")
    case None
    then have "spec_run_pipeline clock 0 (engine s0) projects = None"
      by (simp add: s0_def)
    from portfolio_loop_raises [OF assms(2) count this]
    have "fst (calculate_portfolio_metrics clock self projects) = Inl OverflowError"
      unfolding calculate_portfolio_metrics_def Let_def s0_def [symmetric]
      using assms(1) by (auto split: prod.splits option.splits)
    with None show ?thesis
      by simp
  next
    case (Some r)
    obtain ms self' where r: "r = (ms, self')"
      by (cases r)
    have len: "length ms = length projects"
      using spec_run_pipeline_length Some r by blast
    with assms(1) have ne: "ms \<noteq> []"
      by auto
    have "spec_run_pipeline clock 0 (engine s0) projects = Some (ms, self')"
      using Some r by (simp add: s0_def)
    from portfolio_loop_run [OF assms(2) count this]
    have loop: "portfolio_loop clock 0 projects s0 =
       (None,
        \<lparr>engine = self',
         portfolio_metrics = (portfolio_metrics s0)(''at_risk_count'' \<mapsto>
            PyInt (int (length (filter (\<lambda>m. health_status m = ''Red'') ms)))),
         health_scores = map risk_score ms,
         utilizations = map team_utilization ms,
         schedule_indices = map schedule_performance_index ms\<rparr>)"
      by (simp add: s0_def)
    have "calculate_portfolio_metrics clock self projects =
                (Inr [''total_projects'' \<mapsto> PyInt (int (length projects)),
                      ''avg_health_score'' \<mapsto> PyFloat (np_mean (map risk_score ms)),
                      ''at_risk_count'' \<mapsto>
                         PyInt (int (length (filter (\<lambda>m. health_status m = ''Red'') ms))),
                      ''avg_budget_utilization'' \<mapsto>
                         PyFloat (np_mean (map team_utilization ms)),
                      ''avg_schedule_health'' \<mapsto>
                         PyFloat (np_mean (map schedule_performance_index ms))],
                 self')"
      unfolding calculate_portfolio_metrics_def Let_def s0_def [symmetric] loop
      using assms(1) ne
      by (auto simp add: s0_def fun_eq_iff)
    with len Some r show ?thesis
      by simp
  qed
qed

text \<open>
  On the three sample projects the summary counts three projects, two of them Red (the
  late project and the sample project), and the three means are those of the risk scores
  \<open>0\<close>, \<open>70\<close> and \<open>0\<close> (\<open>23.333333333333332\<close>), of the utilizations \<open>0.1\<close>, \<open>0.2\<close> and
  \<open>0.3\<close> (\<open>0.20000000000000004\<close>) and of the schedule indices \<open>0.899\<close>, \<open>0.938\<close> and \<open>0\<close>
  (\<open>0.6123333333333333\<close>).
\<close>

theorem calculate_portfolio_metrics_summary_witness:
  "sample_projects \<noteq> [] \<and>
   (\<exists>summary self'.
      calculate_portfolio_metrics (\<lambda>i. int i) fresh_engine sample_projects = (Inr summary, self') \<and>
      summary ''total_projects'' = Some (PyInt 3) \<and>
      summary ''avg_health_score'' = Some (PyFloat (Fin (6567749456581973 / 2 ^ 48))) \<and>
      summary ''at_risk_count'' = Some (PyInt 2) \<and>
      summary ''avg_budget_utilization'' = Some (PyFloat (Fin (7205759403792795 / 2 ^ 55))) \<and>
      summary ''avg_schedule_health'' = Some (PyFloat (Fin (5515408343653067 / 2 ^ 53))))"
  using calculate_portfolio_metrics_summary [of sample_projects "\<lambda>i. int i" fresh_engine]
  by (simp add: sample_projects_def calculate_metrics_sample calculate_metrics_no_data
      calculate_metrics_late Let_def kwargs_get_def np_mean_def pairwise_sum_short fl_evals
      round_half_even_def)

text \<open>
  The sample project computed twice, at the clock readings 1 and 2: both records carry
  the risk score 70 and the status Red, each is stamped with its own reading, and the
  cache ends with the second one. The project whose risk factors overflow raises in both
  calls.
\<close>

theorem calculate_metrics_twice_witness:
  "(\<exists>m1 self1 m2 self2.
      calculate_metrics 1 fresh_engine ''PROJ-001'' sample_kwargs = (Inr m1, self1) \<and>
      calculate_metrics 2 self1 ''PROJ-001'' sample_kwargs = (Inr m2, self2) \<and>
      calculated_at m1 = 1 \<and> calculated_at m2 = 2 \<and>
      risk_score m1 = Fin 70 \<and> risk_score m2 = Fin 70 \<and>
      health_status m1 = ''Red'' \<and> health_status m2 = ''Red'' \<and>
      get_project_metrics self1 ''PROJ-001'' = Some m1 \<and>
      get_project_metrics self2 ''PROJ-001'' = Some m2 \<and> m1 \<noteq> m2) \<and>
   calculate_metrics 1 fresh_engine ''PROJ-003'' overflow_kwargs =
     (Inl OverflowError, fresh_engine) \<and>
   calculate_metrics 2 fresh_engine ''PROJ-003'' overflow_kwargs =
     (Inl OverflowError, fresh_engine)"
  using calculate_metrics_twice [where ?t1.0 = 1 and self = fresh_engine
      and pid = "''PROJ-001''" and kw = sample_kwargs and ?t2.0 = 2]
    calculate_metrics_twice [where ?t1.0 = 1 and self = fresh_engine
      and pid = "''PROJ-003''" and kw = overflow_kwargs and ?t2.0 = 2]
  by (simp add: calculate_metrics_sample_kwargs calculate_metrics_overflow Let_def
      get_project_metrics_def)


end
